theory Spec2Isabelle
  imports Complex_Main
begin

section \<open>Python values, errors and external collaborators\<close>

text \<open>
  The module \<^verbatim>\<open>tape_pytorch/datasets.py\<close> is embedded function by function.
  Python exceptions are values of the type \<open>error\<close>; a function that may raise returns
  \<open>error + 'a\<close>. Python floats are modelled as real numbers and \<^verbatim>\<open>np.int64\<close> values as
  unbounded integers (token ids, labels and lengths are far from the 64-bit range).
\<close>

datatype error =
    FileNotFoundError string
  | IndexError int
  | IndexError_msg string
  | ValueError string
  | KeyError string
  | TypeError string
  | AttributeError string
  | DeserializationError



text \<open>The values stored in a record (a Python \<^verbatim>\<open>dict\<close> from field name to value).\<close>

datatype pyval =
    PyStr string
  | PyInt int
  | PyFloat real
  | PyIntArray "int list"
  | PyBoolArray "bool list"
  | PyCoords "(real \<times> real \<times> real) list"

type_synonym item = "string \<rightharpoonup> pyval"

text \<open>
  Python sequence indexing: an index \<open>i\<close> into a sequence of \<open>len\<close> elements denotes
  position \<open>i\<close> when it is non-negative and position \<open>len + i\<close> when it is negative;
  outside \<open>[-len, len)\<close> the access raises.
\<close>

definition py_index :: "nat \<Rightarrow> int \<Rightarrow> nat option" where
  "py_index len i =
     (if 0 \<le> i \<and> i < int len then Some (nat i)
      else if i < 0 \<and> - int len \<le> i then Some (nat (int len + i))
      else None)"

definition py_list_get :: "'a list \<Rightarrow> int \<Rightarrow> error + 'a" where
  "py_list_get xs i =
     (case py_index (length xs) i of
        None \<Rightarrow> Inl (IndexError_msg ''list index out of range'')
      | Some k \<Rightarrow> Inr (xs ! k))"

definition py_list_set :: "'a list \<Rightarrow> int \<Rightarrow> 'a \<Rightarrow> error + 'a list" where
  "py_list_set xs i v =
     (case py_index (length xs) i of
        None \<Rightarrow> Inl (IndexError_msg ''list assignment index out of range'')
      | Some k \<Rightarrow> Inr (xs[k := v]))"

subsection \<open>The sequence-file parser (Bio.SeqIO)\<close>

record seq_record =
  rec_id :: string
  rec_seq :: string

text \<open>
  The object returned by \<^verbatim>\<open>SeqIO.index\<close>: a read-only dictionary from record identifier to
  record, held as the (identifier, record) pairs in file order, that reads the file on
  every lookup. \<open>idx_reads\<close> counts the lookups performed on the handle.
\<close>

record indexed_fasta =
  idx_entries :: "(string \<times> seq_record) list"
  idx_reads :: nat

definition idx_len :: "indexed_fasta \<Rightarrow> nat" where
  "idx_len records = length (idx_entries records)"

definition idx_keys :: "indexed_fasta \<Rightarrow> string list" where
  "idx_keys records = map fst (idx_entries records)"

definition idx_getitem :: "indexed_fasta \<Rightarrow> string \<Rightarrow> error + (seq_record \<times> indexed_fasta)" where
  "idx_getitem records key =
     (case map_of (idx_entries records) key of
        None \<Rightarrow> Inl (KeyError key)
      | Some r \<Rightarrow> Inr (r, records\<lparr>idx_reads := Suc (idx_reads records)\<rparr>))"

text \<open>\<^verbatim>\<open>list(records.values())\<close>: one lookup per key, in key order.\<close>

fun idx_values_from :: "indexed_fasta \<Rightarrow> string list \<Rightarrow> error + (seq_record list \<times> indexed_fasta)" where
  "idx_values_from records [] = Inr ([], records)"
| "idx_values_from records (k # ks) =
     (case idx_getitem records k of
        Inl e \<Rightarrow> Inl e
      | Inr (r, records') \<Rightarrow>
          (case idx_values_from records' ks of
             Inl e \<Rightarrow> Inl e
           | Inr (rs, records'') \<Rightarrow> Inr (r # rs, records'')))"

definition idx_values :: "indexed_fasta \<Rightarrow> error + (seq_record list \<times> indexed_fasta)" where
  "idx_values records = idx_values_from records (idx_keys records)"

subsection \<open>The key-value record store (lmdb) and pickle\<close>

text \<open>
  What \<^verbatim>\<open>pkl.loads(txn.get(key))\<close> can yield for one key: the key is absent
  (\<^verbatim>\<open>txn.get\<close> returns \<^verbatim>\<open>None\<close> and \<^verbatim>\<open>pkl.loads(None)\<close> raises \<^verbatim>\<open>TypeError\<close>), the bytes do
  not unpickle, or a value is decoded.
\<close>

datatype 'a stored = Missing | Undecodable | Stored 'a

definition pkl_loads_get :: "'a stored \<Rightarrow> error + 'a" where
  "pkl_loads_get s =
     (case s of
        Missing \<Rightarrow> Inl (TypeError ''a bytes-like object is required, not NoneType'')
      | Undecodable \<Rightarrow> Inl DeserializationError
      | Stored v \<Rightarrow> Inr v)"

text \<open>
  An opened environment: the reserved key \<^verbatim>\<open>b'num_examples'\<close> and the records under the
  keys \<^verbatim>\<open>str(index).encode()\<close>; the decimal rendering of an integer is injective, so the
  record keys are indexed by the integer itself.
\<close>

record lmdb_env =
  env_num_examples :: "int stored"
  env_entry :: "int \<Rightarrow> item stored"

subsection \<open>The file system and the two libraries, as seen by the constructors\<close>

record file_system =
  path_exists :: "string \<Rightarrow> bool"
  seqio_parse :: "string \<Rightarrow> error + seq_record list"
  seqio_index :: "string \<Rightarrow> error + indexed_fasta"
  lmdb_open :: "string \<Rightarrow> error + lmdb_env"

section \<open>FastaDataset\<close>

text \<open>
  The attributes \<^verbatim>\<open>_cache\<close>, \<^verbatim>\<open>_records\<close> and \<^verbatim>\<open>_keys\<close> are assigned on some construction
  paths only; \<open>None\<close> stands for an attribute that was never assigned. A cache slot is an
  option because \<^verbatim>\<open>__getitem__\<close> tests it against \<^verbatim>\<open>None\<close>.
\<close>

record fasta_dataset =
  fd_cache :: "seq_record option list option"
  fd_records :: "indexed_fasta option"
  fd_keys :: "string list option"
  fd_in_memory :: bool
  fd_num_examples :: int

definition FastaDataset_init :: "file_system \<Rightarrow> string \<Rightarrow> bool \<Rightarrow> error + fasta_dataset" where
  "FastaDataset_init fs data_file in_memory =
     (if \<not> path_exists fs data_file then Inl (FileNotFoundError data_file)
      else if in_memory then
        (case seqio_parse fs data_file of
           Inl e \<Rightarrow> Inl e
         | Inr cache \<Rightarrow>
             Inr \<lparr>fd_cache = Some (map Some cache), fd_records = None, fd_keys = None,
                  fd_in_memory = True, fd_num_examples = int (length cache)\<rparr>)
      else
        (case seqio_index fs data_file of
           Inl e \<Rightarrow> Inl e
         | Inr records \<Rightarrow>
             (let num_examples = int (idx_len records) in
              if num_examples < 10000 then
                (case idx_values records of
                   Inl e \<Rightarrow> Inl e
                 | Inr (cache, records') \<Rightarrow>
                     Inr \<lparr>fd_cache = Some (map Some cache), fd_records = None, fd_keys = None,
                          fd_in_memory = True, fd_num_examples = num_examples\<rparr>)
              else
                Inr \<lparr>fd_cache = None, fd_records = Some records,
                     fd_keys = Some (idx_keys records),
                     fd_in_memory = False, fd_num_examples = num_examples\<rparr>)))"

definition FastaDataset_len :: "fasta_dataset \<Rightarrow> int" where
  "FastaDataset_len ds = fd_num_examples ds"

definition fasta_item :: "seq_record \<Rightarrow> item" where
  "fasta_item record =
     [''id'' \<mapsto> PyStr (rec_id record),
      ''primary'' \<mapsto> PyStr (rec_seq record),
      ''protein_length'' \<mapsto> PyInt (int (length (rec_seq record)))]"

text \<open>The \<^verbatim>\<open>else\<close> branch of \<^verbatim>\<open>__getitem__\<close>: read through \<^verbatim>\<open>_keys\<close> and \<^verbatim>\<open>_records\<close>, and
  store the record in the cache when the dataset is in memory.\<close>

definition fasta_read_store :: "fasta_dataset \<Rightarrow> int \<Rightarrow> error + (seq_record \<times> fasta_dataset)" where
  "fasta_read_store ds index =
     (case fd_keys ds of
        None \<Rightarrow> Inl (AttributeError ''_keys'')
      | Some keys \<Rightarrow>
          (case py_list_get keys index of
             Inl e \<Rightarrow> Inl e
           | Inr key \<Rightarrow>
               (case fd_records ds of
                  None \<Rightarrow> Inl (AttributeError ''_records'')
                | Some records \<Rightarrow>
                    (case idx_getitem records key of
                       Inl e \<Rightarrow> Inl e
                     | Inr (record, records') \<Rightarrow>
                         (let ds' = ds\<lparr>fd_records := Some records'\<rparr> in
                          if fd_in_memory ds then
                            (case fd_cache ds of
                               None \<Rightarrow> Inl (AttributeError ''_cache'')
                             | Some cache \<Rightarrow>
                                 (case py_list_set cache index (Some record) of
                                    Inl e \<Rightarrow> Inl e
                                  | Inr cache' \<Rightarrow> Inr (record, ds'\<lparr>fd_cache := Some cache'\<rparr>)))
                          else Inr (record, ds'))))))"

text \<open>
  \<^verbatim>\<open>__getitem__\<close> returns the result (or the exception) together with the dataset after
  the call.
\<close>

definition FastaDataset_getitem :: "fasta_dataset \<Rightarrow> int \<Rightarrow> (error + item) \<times> fasta_dataset" where
  "FastaDataset_getitem ds index =
     (if \<not> (0 \<le> index \<and> index < fd_num_examples ds) then (Inl (IndexError index), ds)
      else
        (case (if fd_in_memory ds then
                 (case fd_cache ds of
                    None \<Rightarrow> Inl (AttributeError ''_cache'')
                  | Some cache \<Rightarrow> py_list_get cache index)
               else Inr None) of
           Inl e \<Rightarrow> (Inl e, ds)
         | Inr (Some record) \<Rightarrow> (Inr (fasta_item record), ds)
         | Inr None \<Rightarrow>
             (case fasta_read_store ds index of
                Inl e \<Rightarrow> (Inl e, ds)
              | Inr (record, ds') \<Rightarrow> (Inr (fasta_item record), ds'))))"

section \<open>LMDBDataset\<close>

record lmdb_dataset =
  ld_env :: lmdb_env
  ld_cache :: "item option list option"
  ld_in_memory :: bool
  ld_num_examples :: int

definition LMDBDataset_init :: "file_system \<Rightarrow> string \<Rightarrow> bool \<Rightarrow> error + lmdb_dataset" where
  "LMDBDataset_init fs data_file in_memory =
     (if \<not> path_exists fs data_file then Inl (FileNotFoundError data_file)
      else
        (case lmdb_open fs data_file of
           Inl e \<Rightarrow> Inl e
         | Inr env \<Rightarrow>
             (case pkl_loads_get (env_num_examples env) of
                Inl e \<Rightarrow> Inl e
              | Inr num_examples \<Rightarrow>
                  Inr \<lparr>ld_env = env,
                       ld_cache = (if in_memory then Some (replicate (nat num_examples) None)
                                   else None),
                       ld_in_memory = in_memory,
                       ld_num_examples = num_examples\<rparr>)))"

definition LMDBDataset_len :: "lmdb_dataset \<Rightarrow> int" where
  "LMDBDataset_len ds = ld_num_examples ds"

definition lmdb_read_store :: "lmdb_dataset \<Rightarrow> int \<Rightarrow> error + (item \<times> lmdb_dataset)" where
  "lmdb_read_store ds index =
     (case pkl_loads_get (env_entry (ld_env ds) index) of
        Inl e \<Rightarrow> Inl e
      | Inr item \<Rightarrow>
          (if ld_in_memory ds then
             (case ld_cache ds of
                None \<Rightarrow> Inl (AttributeError ''_cache'')
              | Some cache \<Rightarrow>
                  (case py_list_set cache index (Some item) of
                     Inl e \<Rightarrow> Inl e
                   | Inr cache' \<Rightarrow> Inr (item, ds\<lparr>ld_cache := Some cache'\<rparr>)))
           else Inr (item, ds)))"

definition LMDBDataset_getitem :: "lmdb_dataset \<Rightarrow> int \<Rightarrow> (error + item) \<times> lmdb_dataset" where
  "LMDBDataset_getitem ds index =
     (if \<not> (0 \<le> index \<and> index < ld_num_examples ds) then (Inl (IndexError index), ds)
      else
        (case (if ld_in_memory ds then
                 (case ld_cache ds of
                    None \<Rightarrow> Inl (AttributeError ''_cache'')
                  | Some cache \<Rightarrow> py_list_get cache index)
               else Inr None) of
           Inl e \<Rightarrow> (Inl e, ds)
         | Inr (Some item) \<Rightarrow> (Inr item, ds)
         | Inr None \<Rightarrow>
             (case lmdb_read_store ds index of
                Inl e \<Rightarrow> (Inl e, ds)
              | Inr (item, ds') \<Rightarrow> (Inr item, ds'))))"





text \<open>The dataset after a sequence of \<^verbatim>\<open>__getitem__\<close> calls with the given indices.\<close>

definition fasta_after :: "fasta_dataset \<Rightarrow> int list \<Rightarrow> fasta_dataset" where
  "fasta_after ds indices = foldl (\<lambda>d i. snd (FastaDataset_getitem d i)) ds indices"

text \<open>The states of a dataset that reads through the index \<open>records\<close>: no cache, the key
  list of the index, and the index handle itself up to the number of lookups made.\<close>

definition fasta_lazy :: "indexed_fasta \<Rightarrow> fasta_dataset \<Rightarrow> bool" where
  "fasta_lazy records ds \<longleftrightarrow>
     \<not> fd_in_memory ds \<and> fd_cache ds = None \<and> fd_keys ds = Some (idx_keys records) \<and>
     fd_num_examples ds = int (idx_len records) \<and>
     (\<exists>k. fd_records ds = Some (records\<lparr>idx_reads := k\<rparr>))"

section \<open>The tokenizer and the registry\<close>

text \<open>
  \<^verbatim>\<open>tape_pytorch.tokenizers\<close> and \<^verbatim>\<open>tape_pytorch.registry\<close> are imported by the module and
  are not part of it; a tokenizer is taken as a parameter with the attributes and methods
  that \<^verbatim>\<open>datasets.py\<close> uses. \<open>is_BPETokenizer\<close> is the outcome of
  \<^verbatim>\<open>isinstance(tokenizer, tokenizers.BPETokenizer)\<close>.
\<close>

record tokenizer =
  tokenize :: "string \<Rightarrow> string list"
  convert_token_to_id :: "string \<Rightarrow> int"
  convert_id_to_token :: "int \<Rightarrow> string"
  cls_token :: string
  sep_token :: string
  mask_token :: string
  vocab_size :: int
  is_BPETokenizer :: bool

text \<open>
  Modelled from the spec: \<^verbatim>\<open>TAPETokenizer.convert_tokens_to_ids\<close> lives in
  \<^verbatim>\<open>tokenizers.py\<close>, which is not among the sources; the spec describes it as the
  conversion of the token sequence to integer ids by lookup, one id per token.
\<close>

definition convert_tokens_to_ids :: "tokenizer \<Rightarrow> string list \<Rightarrow> int list" where
  "convert_tokens_to_ids tk tokens = map (convert_token_to_id tk) tokens"

text \<open>The \<^verbatim>\<open>tokenizer\<close> argument is a registered name or an instance.\<close>

datatype tokenizer_arg = ByName string | Instance tokenizer

text \<open>\<^verbatim>\<open>registry.get_tokenizer_class(name).from_pretrained(model_file=model_file)\<close>.\<close>

record registry =
  from_pretrained :: "string \<Rightarrow> string \<Rightarrow> error + tokenizer"

subsection \<open>Paths\<close>

text \<open>Paths are strings in normal form; \<^verbatim>\<open>a / b\<close> is \<open>b\<close> when \<open>b\<close> is absolute.\<close>

definition path_join :: "string \<Rightarrow> string \<Rightarrow> string" where
  "path_join a b = (case b of CHR ''/'' # rest \<Rightarrow> b | _ \<Rightarrow> a @ ''/'' @ b)"

definition path_name :: "string \<Rightarrow> string" where
  "path_name p = rev (takeWhile (\<lambda>c. c \<noteq> CHR ''/'') (rev p))"

text \<open>\<^verbatim>\<open>Path.suffix\<close>: the last dot-separated part of the final component, with its dot;
  empty when the only dot leads the name or ends it.\<close>

definition path_suffix :: "string \<Rightarrow> string" where
  "path_suffix p =
     (let name = path_name p;
          ext = rev (takeWhile (\<lambda>c. c \<noteq> CHR ''.'') (rev name))
      in if ext \<noteq> [] \<and> Suc (length ext) < length name then CHR ''.'' # ext else [])"

section \<open>TAPEDataset\<close>

datatype record_source = Lmdb lmdb_dataset | Fasta fasta_dataset

record tape_dataset =
  td_tokenizer :: tokenizer
  td_convert_tokens_to_ids :: bool
  td_dataset :: record_source

text \<open>\<^verbatim>\<open>dataset_type[data_file.suffix](data_file, in_memory)\<close>.\<close>

definition open_record_source :: "file_system \<Rightarrow> string \<Rightarrow> bool \<Rightarrow> error + record_source" where
  "open_record_source fs data_file in_memory =
     (if path_suffix data_file = ''.lmdb'' then
        (case LMDBDataset_init fs data_file in_memory of
           Inl e \<Rightarrow> Inl e | Inr ds \<Rightarrow> Inr (Lmdb ds))
      else if path_suffix data_file = ''.fasta'' then
        (case FastaDataset_init fs data_file in_memory of
           Inl e \<Rightarrow> Inl e | Inr ds \<Rightarrow> Inr (Fasta ds))
      else Inl (KeyError (path_suffix data_file)))"

definition TAPEDataset_init ::
  "registry \<Rightarrow> file_system \<Rightarrow> string \<Rightarrow> string \<Rightarrow> tokenizer_arg \<Rightarrow> bool \<Rightarrow> bool
     \<Rightarrow> error + tape_dataset" where
  "TAPEDataset_init reg fs data_path data_file tokenizer in_memory convert =
     (case (case tokenizer of
              ByName name \<Rightarrow> from_pretrained reg name (path_join data_path ''pfam.model'')
            | Instance t \<Rightarrow> Inr t) of
        Inl e \<Rightarrow> Inl e
      | Inr tk \<Rightarrow>
          (case (if path_exists fs data_file then Inr data_file
                 else (let data_file' = path_join data_path data_file in
                       if path_exists fs data_file' then Inr data_file'
                       else Inl (FileNotFoundError data_file'))) of
             Inl e \<Rightarrow> Inl e
           | Inr file \<Rightarrow>
               (case open_record_source fs file in_memory of
                  Inl e \<Rightarrow> Inl e
                | Inr src \<Rightarrow>
                    Inr \<lparr>td_tokenizer = tk, td_convert_tokens_to_ids = convert,
                         td_dataset = src\<rparr>)))"

definition record_source_len :: "record_source \<Rightarrow> int" where
  "record_source_len src =
     (case src of Lmdb ds \<Rightarrow> LMDBDataset_len ds | Fasta ds \<Rightarrow> FastaDataset_len ds)"

definition record_source_getitem :: "record_source \<Rightarrow> int \<Rightarrow> (error + item) \<times> record_source" where
  "record_source_getitem src index =
     (case src of
        Lmdb ds \<Rightarrow> (case LMDBDataset_getitem ds index of (r, ds') \<Rightarrow> (r, Lmdb ds'))
      | Fasta ds \<Rightarrow> (case FastaDataset_getitem ds index of (r, ds') \<Rightarrow> (r, Fasta ds')))"

definition TAPEDataset_len :: "tape_dataset \<Rightarrow> int" where
  "TAPEDataset_len ds = record_source_len (td_dataset ds)"

text \<open>The token sequence is a list of token strings or, after conversion, an array of
  ids.\<close>

datatype token_seq = TokenStrs "string list" | TokenIds "int list"

fun token_seq_len :: "token_seq \<Rightarrow> nat" where
  "token_seq_len (TokenStrs ts) = length ts"
| "token_seq_len (TokenIds ids) = length ids"

definition TAPEDataset_getitem ::
  "tape_dataset \<Rightarrow> int \<Rightarrow> (error + (item \<times> token_seq \<times> int list)) \<times> tape_dataset" where
  "TAPEDataset_getitem ds index =
     (case record_source_getitem (td_dataset ds) index of
        (Inl e, src') \<Rightarrow> (Inl e, ds\<lparr>td_dataset := src'\<rparr>)
      | (Inr item, src') \<Rightarrow>
          (let ds' = ds\<lparr>td_dataset := src'\<rparr>; tk = td_tokenizer ds in
           case item ''primary'' of
             None \<Rightarrow> (Inl (KeyError ''primary''), ds')
           | Some (PyStr primary) \<Rightarrow>
               (let tokens = [cls_token tk] @ tokenize tk primary @ [sep_token tk];
                    tokens' = (if td_convert_tokens_to_ids ds
                               then TokenIds (convert_tokens_to_ids tk tokens)
                               else TokenStrs tokens);
                    attention_mask = replicate (token_seq_len tokens') 1
                in (Inr (item, tokens', attention_mask), ds'))
           | Some _ \<Rightarrow> (Inl (TypeError ''expected str''), ds')))"

section \<open>Task datasets: construction\<close>

definition PfamDataset_init ::
  "registry \<Rightarrow> file_system \<Rightarrow> string \<Rightarrow> string \<Rightarrow> tokenizer_arg \<Rightarrow> bool \<Rightarrow> error + tape_dataset" where
  "PfamDataset_init reg fs data_path mode tokenizer in_memory =
     (if mode \<notin> set [''train'', ''valid'', ''holdout''] then
        Inl (ValueError (''Unrecognized mode: '' @ mode @
               ''. Must be one of ['train', 'valid', 'holdout']''))
      else TAPEDataset_init reg fs data_path (''pfam/pfam_'' @ mode @ ''.lmdb'')
             tokenizer in_memory False)"

definition FluorescenceDataset_init ::
  "registry \<Rightarrow> file_system \<Rightarrow> string \<Rightarrow> string \<Rightarrow> tokenizer_arg \<Rightarrow> bool \<Rightarrow> error + tape_dataset" where
  "FluorescenceDataset_init reg fs data_path mode tokenizer in_memory =
     (if mode \<notin> set [''train'', ''valid'', ''test''] then
        Inl (ValueError (''Unrecognized mode: '' @ mode @
               ''. Must be one of ['train', 'valid', 'test']''))
      else TAPEDataset_init reg fs data_path (''fluorescence/fluorescence_'' @ mode @ ''.lmdb'')
             tokenizer in_memory True)"

definition StabilityDataset_init ::
  "registry \<Rightarrow> file_system \<Rightarrow> string \<Rightarrow> string \<Rightarrow> tokenizer_arg \<Rightarrow> bool \<Rightarrow> error + tape_dataset" where
  "StabilityDataset_init reg fs data_path mode tokenizer in_memory =
     (if mode \<notin> set [''train'', ''valid'', ''test''] then
        Inl (ValueError (''Unrecognized mode: '' @ mode @
               ''. Must be one of ['train', 'valid', 'test']''))
      else TAPEDataset_init reg fs data_path (''stability/stability_'' @ mode @ ''.lmdb'')
             tokenizer in_memory True)"

definition RemoteHomologyDataset_init ::
  "registry \<Rightarrow> file_system \<Rightarrow> string \<Rightarrow> string \<Rightarrow> tokenizer_arg \<Rightarrow> bool \<Rightarrow> error + tape_dataset" where
  "RemoteHomologyDataset_init reg fs data_path mode tokenizer in_memory =
     (if mode \<notin> set [''train'', ''valid'', ''test_fold_holdout'', ''test_family_holdout'',
                       ''test_superfamily_holdout''] then
        Inl (ValueError (''Unrecognized mode: '' @ mode @
               ''. Must be one of ['train', 'valid', 'test_fold_holdout', 'test_family_holdout', 'test_superfamily_holdout']''))
      else TAPEDataset_init reg fs data_path
             (''remote_homology/remote_homology_'' @ mode @ ''.lmdb'') tokenizer in_memory True)"

definition ProteinnetDataset_init ::
  "registry \<Rightarrow> file_system \<Rightarrow> string \<Rightarrow> string \<Rightarrow> tokenizer_arg \<Rightarrow> bool \<Rightarrow> error + tape_dataset" where
  "ProteinnetDataset_init reg fs data_path mode tokenizer in_memory =
     (if mode \<notin> set [''train'', ''train_unfiltered'', ''valid'', ''test''] then
        Inl (ValueError (''Unrecognized mode: '' @ mode @
               ''. Must be one of ['train', 'train_unfiltered', 'valid', 'test']''))
      else TAPEDataset_init reg fs data_path (''proteinnet/proteinnet_'' @ mode @ ''.lmdb'')
             tokenizer in_memory True)"

record secondary_structure_dataset =
  ss_base :: tape_dataset
  ss_num_classes :: int

definition SecondaryStructureDataset_init ::
  "registry \<Rightarrow> file_system \<Rightarrow> string \<Rightarrow> string \<Rightarrow> tokenizer_arg \<Rightarrow> bool \<Rightarrow> int
     \<Rightarrow> error + secondary_structure_dataset" where
  "SecondaryStructureDataset_init reg fs data_path mode tokenizer in_memory num_classes =
     (if mode \<notin> set [''train'', ''valid'', ''casp12'', ''ts115'', ''cb513''] then
        Inl (ValueError (''Unrecognized mode: '' @ mode @
               ''. Must be one of ['train', 'valid', 'casp12', 'ts115', 'cb513']''))
      else
        (case TAPEDataset_init reg fs data_path
                (''secondary_structure/secondary_structure_'' @ mode @ ''.lmdb'')
                tokenizer in_memory False of
           Inl e \<Rightarrow> Inl e
         | Inr base \<Rightarrow> Inr \<lparr>ss_base = base, ss_num_classes = num_classes\<rparr>))"

section \<open>PfamDataset: masked-language-model labels\<close>






section \<open>SecondaryStructureDataset\<close>

text \<open>\<^verbatim>\<open>str\<close> of an integer: its decimal digits, with a minus sign when negative.\<close>

function string_of_nat :: "nat \<Rightarrow> string" where
  "string_of_nat n =
     (if n < 10 then [''0123456789'' ! n]
      else string_of_nat (n div 10) @ [''0123456789'' ! (n mod 10)])"
  by pat_completeness auto
termination
  by (relation "measure id") auto

declare string_of_nat.simps [simp del]

definition py_str_int :: "int \<Rightarrow> string" where
  "py_str_int i = (if i < 0 then CHR ''-'' # string_of_nat (nat (- i)) else string_of_nat (nat i))"

text \<open>
  The per-token character lengths of the tokens between the boundary tokens
  (\<^verbatim>\<open>tokens[1:-1]\<close>), the first one decremented in place, padded with a 1 on both sides.
  Decrementing element 0 of an empty array raises \<^verbatim>\<open>IndexError\<close>.
\<close>

definition bpe_token_lengths :: "string list \<Rightarrow> error + int list" where
  "bpe_token_lengths tokens =
     (case map (\<lambda>token. int (length token)) (butlast (tl tokens)) of
        [] \<Rightarrow> Inl (IndexError_msg ''index 0 is out of bounds for axis 0 with size 0'')
      | first # others \<Rightarrow> Inr ([1] @ ((first - 1) # others) @ [1]))"

text \<open>
  The constructor passes \<^verbatim>\<open>convert_tokens_to_ids=False\<close>, so the token sequence handed over
  by \<^verbatim>\<open>TAPEDataset.__getitem__\<close> is a list of strings; an array of ids does not occur
  there and is answered with a type error. The result is \<^verbatim>\<open>(token_ids, attention_mask, labels, token_lengths)\<close>.
\<close>

definition SecondaryStructureDataset_getitem ::
  "secondary_structure_dataset \<Rightarrow> int
     \<Rightarrow> (error + (int list \<times> int list \<times> int list \<times> int list option))
        \<times> secondary_structure_dataset" where
  "SecondaryStructureDataset_getitem ds index =
     (case TAPEDataset_getitem (ss_base ds) index of
        (Inl e, base') \<Rightarrow> (Inl e, ds\<lparr>ss_base := base'\<rparr>)
      | (Inr (item, tokens, attention_mask), base') \<Rightarrow>
          (let ds' = ds\<lparr>ss_base := base'\<rparr>;
               tk = td_tokenizer (ss_base ds);
               key = ''ss'' @ py_str_int (ss_num_classes ds)
           in case item key of
                None \<Rightarrow> (Inl (KeyError key), ds')
              | Some (PyIntArray ss) \<Rightarrow>
                  (let labels = [- 1] @ ss @ [- 1] in
                   case tokens of
                     TokenIds ids \<Rightarrow> (Inl (TypeError ''tokens are ids''), ds')
                   | TokenStrs ts \<Rightarrow>
                       (case (if is_BPETokenizer tk
                              then (case bpe_token_lengths ts of
                                      Inl e \<Rightarrow> Inl e
                                    | Inr token_lengths \<Rightarrow> Inr (Some token_lengths))
                              else Inr None) of
                          Inl e \<Rightarrow> (Inl e, ds')
                        | Inr token_lengths \<Rightarrow>
                            (Inr (convert_tokens_to_ids tk ts, attention_mask, labels,
                                  token_lengths), ds')))
              | Some _ \<Rightarrow> (Inl (ValueError ''labels are not an integer array''), ds')))"

section \<open>ProteinnetDataset: contact maps\<close>

text \<open>
  \<^verbatim>\<open>scipy.spatial.distance.pdist\<close> with its default Euclidean metric returns the condensed
  distance vector of the rows: the distances of the pairs \<open>(i, j)\<close>, \<open>i < j\<close>, ordered
  \<open>(0,1), (0,2), \<dots>, (0,n-1), (1,2), \<dots>\<close>.
\<close>

definition euclidean :: "real \<times> real \<times> real \<Rightarrow> real \<times> real \<times> real \<Rightarrow> real" where
  "euclidean u v =
     (case u of (x, y, z) \<Rightarrow> case v of (x', y', z') \<Rightarrow>
        sqrt ((x - x')\<^sup>2 + (y - y')\<^sup>2 + (z - z')\<^sup>2))"

fun pdist :: "(real \<times> real \<times> real) list \<Rightarrow> real list" where
  "pdist [] = []"
| "pdist (p # ps) = map (euclidean p) ps @ pdist ps"

text \<open>
  \<^verbatim>\<open>squareform\<close> on a condensed vector \<open>v\<close>: an empty vector gives the 1-by-1 zero matrix;
  otherwise the dimension is \<open>d = ceil (sqrt (2 * len v))\<close>, the vector is rejected unless
  \<open>d * (d - 1) = 2 * len v\<close>, and the matrix is symmetric with a zero diagonal, its strict
  upper triangle filled row by row from \<open>v\<close>.
\<close>

function ceil_sqrt_from :: "nat \<Rightarrow> nat \<Rightarrow> nat" where
  "ceil_sqrt_from d n = (if n \<le> d * d then d else ceil_sqrt_from (Suc d) n)"
  by pat_completeness auto
termination
  by (relation "measure (\<lambda>(d, n). n - d * d)") auto

declare ceil_sqrt_from.simps [simp del]

definition ceil_sqrt :: "nat \<Rightarrow> nat" where
  "ceil_sqrt n = ceil_sqrt_from 0 n"

text \<open>Row \<open>k\<close> of the strict upper triangle of a \<open>d\<close>-by-\<open>d\<close> matrix has \<open>d - 1 - k\<close> entries.\<close>

fun triangle_rows :: "nat \<Rightarrow> 'a list \<Rightarrow> 'a list list" where
  "triangle_rows 0 v = []"
| "triangle_rows (Suc k) v = take k v # triangle_rows k (drop k v)"

definition squareform :: "real list \<Rightarrow> error + real list list" where
  "squareform v =
     (if v = [] then Inr [[0]]
      else
        (let d = ceil_sqrt (2 * length v) in
         if d * (d - 1) \<noteq> 2 * length v then
           Inl (ValueError ''Incompatible vector size. It must be a binomial coefficient n choose 2 for some integer n >= 2.'')
         else
           (let rows = triangle_rows d v in
            Inr (map (\<lambda>i. map (\<lambda>j. if i < j then rows ! i ! (j - i - 1)
                                     else if j < i then rows ! j ! (i - j - 1)
                                     else 0) [0..<d]) [0..<d]))))"

text \<open>\<^verbatim>\<open>np.less(m, 8.0).astype(np.int64)\<close>.\<close>

definition less_8 :: "real list list \<Rightarrow> int list list" where
  "less_8 m = map (map (\<lambda>x. if x < 8.0 then 1 else 0)) m"

text \<open>
  \<^verbatim>\<open>contact_map[~(valid_mask[:, None] & valid_mask[None, :])] = -1\<close>: the boolean index is
  the \<open>n\<close>-by-\<open>n\<close> outer conjunction of the mask, negated; indexing an array of another
  shape with it raises \<^verbatim>\<open>IndexError\<close>.
\<close>

definition mask_invalid :: "bool list \<Rightarrow> int list list \<Rightarrow> error + int list list" where
  "mask_invalid valid_mask contact_map =
     (let n = length valid_mask in
      if length contact_map \<noteq> n \<or> (\<exists>row \<in> set contact_map. length row \<noteq> n) then
        Inl (IndexError_msg ''boolean index did not match indexed array'')
      else
        Inr (map (\<lambda>i. map (\<lambda>j. if \<not> (valid_mask ! i \<and> valid_mask ! j) then - 1
                                 else contact_map ! i ! j) [0..<n]) [0..<n]))"

definition contact_map_of ::
  "(real \<times> real \<times> real) list \<Rightarrow> bool list \<Rightarrow> error + int list list" where
  "contact_map_of tertiary valid_mask =
     (case squareform (pdist tertiary) of
        Inl e \<Rightarrow> Inl e
      | Inr distances \<Rightarrow> mask_invalid valid_mask (less_8 distances))"

definition ProteinnetDataset_getitem ::
  "tape_dataset \<Rightarrow> int \<Rightarrow> (error + (token_seq \<times> int list \<times> int list list)) \<times> tape_dataset" where
  "ProteinnetDataset_getitem ds index =
     (case TAPEDataset_getitem ds index of
        (Inl e, ds') \<Rightarrow> (Inl e, ds')
      | (Inr (item, token_ids, attention_mask), ds') \<Rightarrow>
          (case item ''valid_mask'' of
             None \<Rightarrow> (Inl (KeyError ''valid_mask''), ds')
           | Some (PyBoolArray valid_mask) \<Rightarrow>
               (case item ''tertiary'' of
                  None \<Rightarrow> (Inl (KeyError ''tertiary''), ds')
                | Some (PyCoords tertiary) \<Rightarrow>
                    (case contact_map_of tertiary valid_mask of
                       Inl e \<Rightarrow> (Inl e, ds')
                     | Inr contact_map \<Rightarrow> (Inr (token_ids, attention_mask, contact_map), ds'))
                | Some _ \<Rightarrow> (Inl (TypeError ''tertiary is not a coordinate array''), ds'))
           | Some _ \<Rightarrow> (Inl (TypeError ''valid_mask is not a boolean array''), ds')))"

section \<open>PaddedBatch\<close>






section \<open>Concrete stores used to instantiate the theorems\<close>

definition demo_records :: indexed_fasta where
  "demo_records =
     \<lparr>idx_entries = [(''sp1'', \<lparr>rec_id = ''sp1'', rec_seq = ''MV''\<rparr>),
                     (''sp2'', \<lparr>rec_id = ''sp2'', rec_seq = ''MKV''\<rparr>)],
      idx_reads = 0\<rparr>"

text \<open>A record with four residues; the last one has no valid coordinates.\<close>

definition demo_item :: item where
  "demo_item =
     [''primary'' \<mapsto> PyStr ''MKVL'',
      ''valid_mask'' \<mapsto> PyBoolArray [True, True, True, False],
      ''tertiary'' \<mapsto> PyCoords [(0, 0, 0), (1, 0, 0), (10, 0, 0), (2, 0, 0)],
      ''ss3'' \<mapsto> PyIntArray [0, 1, 2, 2],
      ''ss8'' \<mapsto> PyIntArray [3, 4, 7, 7]]"

definition demo_env :: lmdb_env where
  "demo_env =
     \<lparr>env_num_examples = Stored 2,
      env_entry = (\<lambda>i. if i = 0 then Stored [''primary'' \<mapsto> PyStr ''MV'']
                        else if i = 1 then Stored demo_item
                        else Missing)\<rparr>"

definition demo_fs :: file_system where
  "demo_fs =
     \<lparr>path_exists = (\<lambda>p. True),
      seqio_parse = (\<lambda>p. Inl (TypeError ''parse() missing 1 required positional argument'')),
      seqio_index = (\<lambda>p. Inr demo_records),
      lmdb_open = (\<lambda>p. Inr demo_env)\<rparr>"

definition big_records :: indexed_fasta where
  "big_records =
     \<lparr>idx_entries = map (\<lambda>k. (replicate k CHR ''A'',
                               \<lparr>rec_id = replicate k CHR ''A'', rec_seq = ''M''\<rparr>)) [0..<10000],
      idx_reads = 0\<rparr>"

definition big_fs :: file_system where
  "big_fs = demo_fs\<lparr>seqio_index := (\<lambda>p. Inr big_records)\<rparr>"

text \<open>A character-level tokenizer: one token per residue.\<close>

definition demo_tokenizer :: tokenizer where
  "demo_tokenizer =
     \<lparr>tokenize = map (\<lambda>c. [c]),
      convert_token_to_id =
        (\<lambda>t. if t = ''<pad>'' then 0 else if t = ''<mask>'' then 1
             else if t = ''<cls>'' then 2 else if t = ''<sep>'' then 3
             else if t = ''M'' then 4 else if t = ''K'' then 5 else if t = ''V'' then 6
             else if t = ''L'' then 7 else 8),
      convert_id_to_token =
        (\<lambda>i. if i = 0 then ''<pad>'' else if i = 1 then ''<mask>''
             else if i = 2 then ''<cls>'' else if i = 3 then ''<sep>''
             else if i = 4 then ''M'' else if i = 5 then ''K'' else if i = 6 then ''V''
             else if i = 7 then ''L'' else ''X''),
      cls_token = ''<cls>'', sep_token = ''<sep>'', mask_token = ''<mask>'',
      vocab_size = 9, is_BPETokenizer = False\<rparr>"

definition demo_registry :: registry where
  "demo_registry = \<lparr>from_pretrained = (\<lambda>name model_file. Inr demo_tokenizer)\<rparr>"



text \<open>A subword tokenizer: pairs of characters, the first token carrying a start marker.\<close>

fun demo_pairs :: "string \<Rightarrow> string list" where
  "demo_pairs (a # b # rest) = [a, b] # demo_pairs rest"
| "demo_pairs [a] = [[a]]"
| "demo_pairs [] = []"

definition demo_bpe_tokenizer :: tokenizer where
  "demo_bpe_tokenizer =
     demo_tokenizer
       \<lparr>tokenize := (\<lambda>s. case demo_pairs s of [] \<Rightarrow> [] | t # ts \<Rightarrow> (CHR ''_'' # t) # ts),
        is_BPETokenizer := True\<rparr>"

definition demo_bpe_registry :: registry where
  "demo_bpe_registry = \<lparr>from_pretrained = (\<lambda>name model_file. Inr demo_bpe_tokenizer)\<rparr>"

text \<open>A store whose record 0 is a protein without residues.\<close>

definition empty_item :: item where
  "empty_item = [''primary'' \<mapsto> PyStr [], ''ss3'' \<mapsto> PyIntArray [], ''ss8'' \<mapsto> PyIntArray []]"

definition empty_env :: lmdb_env where
  "empty_env =
     \<lparr>env_num_examples = Stored 1,
      env_entry = (\<lambda>i. if i = 0 then Stored empty_item else Missing)\<rparr>"

definition empty_fs :: file_system where
  "empty_fs = demo_fs\<lparr>lmdb_open := (\<lambda>p. Inr empty_env)\<rparr>"

definition ss_dataset_of :: "tokenizer \<Rightarrow> lmdb_env \<Rightarrow> int \<Rightarrow> int \<Rightarrow> secondary_structure_dataset" where
  "ss_dataset_of tk env n num_classes =
     \<lparr>ss_base = \<lparr>td_tokenizer = tk, td_convert_tokens_to_ids = False,
                   td_dataset = Lmdb \<lparr>ld_env = env, ld_cache = None, ld_in_memory = False,
                                       ld_num_examples = n\<rparr>\<rparr>,
      ss_num_classes = num_classes\<rparr>"

definition demo_tape_dataset :: tape_dataset where
  "demo_tape_dataset =
     \<lparr>td_tokenizer = demo_tokenizer, td_convert_tokens_to_ids = True,
      td_dataset = Lmdb \<lparr>ld_env = demo_env, ld_cache = None, ld_in_memory = False,
                          ld_num_examples = 2\<rparr>\<rparr>"



section \<open>Record sources: bounds check\<close>

lemma py_list_get_in_range:
  "0 \<le> i \<Longrightarrow> i < int (length xs) \<Longrightarrow> py_list_get xs i = Inr (xs ! nat i)"
  by (simp add: py_list_get_def py_index_def)
















lemma demo_fasta_init:
  "FastaDataset_init demo_fs ''demo.fasta'' False =
     Inr \<lparr>fd_cache = Some [Some \<lparr>rec_id = ''sp1'', rec_seq = ''MV''\<rparr>,
                            Some \<lparr>rec_id = ''sp2'', rec_seq = ''MKV''\<rparr>],
          fd_records = None, fd_keys = None, fd_in_memory = True, fd_num_examples = 2\<rparr>"
  by (simp add: FastaDataset_init_def demo_fs_def demo_records_def idx_len_def idx_values_def
        idx_getitem_def idx_keys_def)




section \<open>FastaDataset: the small-file upgrade to in-memory mode\<close>

lemma idx_values_from_loaded:
  "set ks \<subseteq> fst ` set (idx_entries records) \<Longrightarrow>
   \<exists>cache records'. idx_values_from records ks = Inr (cache, records') \<and>
      length cache = length ks \<and>
      (\<forall>j<length ks. map_of (idx_entries records) (ks ! j) = Some (cache ! j))"
proof (induction ks arbitrary: records)
  case Nil
  then show ?case by simp
next
  case (Cons k ks)
  from Cons.prems have "k \<in> fst ` set (idx_entries records)" by simp
  then obtain r where r: "map_of (idx_entries records) k = Some r"
    by (metis domD dom_map_of_conv_image_fst)
  let ?records' = "records\<lparr>idx_reads := Suc (idx_reads records)\<rparr>"
  have step: "idx_getitem records k = Inr (r, ?records')"
    by (simp add: idx_getitem_def r)
  have "set ks \<subseteq> fst ` set (idx_entries ?records')" using Cons.prems by simp
  from Cons.IH [OF this] obtain cache records'' where
    rest: "idx_values_from ?records' ks = Inr (cache, records'')"
    and len: "length cache = length ks"
    and pt: "\<forall>j<length ks. map_of (idx_entries records) (ks ! j) = Some (cache ! j)"
    by auto
  have "idx_values_from records (k # ks) = Inr (r # cache, records'')"
    by (simp add: step rest)
  moreover have "\<forall>j<length (k # ks). map_of (idx_entries records) ((k # ks) ! j) = Some ((r # cache) ! j)"
    using r pt by (auto simp: nth_Cons split: nat.splits)
  ultimately show ?case using len by auto
qed

lemma idx_values_loaded:
  "\<exists>cache records'. idx_values records = Inr (cache, records') \<and>
      length cache = idx_len records \<and>
      (\<forall>j<idx_len records. map_of (idx_entries records) (idx_keys records ! j) = Some (cache ! j))"
  using idx_values_from_loaded [of "idx_keys records" records]
  by (simp add: idx_values_def idx_keys_def idx_len_def)

lemma fasta_cached_getitem:
  assumes "fd_in_memory ds" "fd_cache ds = Some (map Some cache)"
    "int (length cache) = fd_num_examples ds" "0 \<le> i" "i < fd_num_examples ds"
  shows "FastaDataset_getitem ds i = (Inr (fasta_item (cache ! nat i)), ds)"
  using assms by (simp add: FastaDataset_getitem_def py_list_get_in_range)

lemma fasta_cached_after:
  assumes "fd_in_memory ds" "fd_cache ds = Some (map Some cache)"
    "int (length cache) = fd_num_examples ds"
  shows "fasta_after ds indices = ds"
proof (induction indices rule: rev_induct)
  case Nil
  then show ?case by (simp add: fasta_after_def)
next
  case (snoc i indices)
  have "snd (FastaDataset_getitem ds i) = ds"
  proof (cases "0 \<le> i \<and> i < fd_num_examples ds")
    case True
    then show ?thesis using fasta_cached_getitem [OF assms, of i] by simp
  next
    case False
    then show ?thesis by (auto simp: FastaDataset_getitem_def)
  qed
  then show ?case using snoc by (simp add: fasta_after_def)
qed

lemma fasta_lazy_getitem:
  assumes "fasta_lazy records ds" "0 \<le> i" "i < fd_num_examples ds"
  shows "\<exists>r rs. fd_records ds = Some rs \<and>
           map_of (idx_entries records) (idx_keys records ! nat i) = Some r \<and>
           FastaDataset_getitem ds i =
             (Inr (fasta_item r), ds\<lparr>fd_records := Some (rs\<lparr>idx_reads := Suc (idx_reads rs)\<rparr>)\<rparr>)"
proof -
  from assms(1) obtain k where rs: "fd_records ds = Some (records\<lparr>idx_reads := k\<rparr>)"
    and keys: "fd_keys ds = Some (idx_keys records)" and nm: "\<not> fd_in_memory ds"
    and n: "fd_num_examples ds = int (idx_len records)"
    by (auto simp: fasta_lazy_def)
  have len: "length (idx_keys records) = idx_len records"
    by (simp add: idx_keys_def idx_len_def)
  have inr: "nat i < length (idx_entries records)" using assms(2,3) n by (simp add: idx_len_def)
  then have "idx_keys records ! nat i \<in> fst ` set (idx_entries records)"
    by (simp add: idx_keys_def)
  then obtain r where r: "map_of (idx_entries records) (idx_keys records ! nat i) = Some r"
    by (metis domD dom_map_of_conv_image_fst)
  have key: "py_list_get (idx_keys records) i = Inr (idx_keys records ! nat i)"
    using assms(2,3) n len by (simp add: py_list_get_in_range)
  have "FastaDataset_getitem ds i =
      (Inr (fasta_item r),
       ds\<lparr>fd_records := Some ((records\<lparr>idx_reads := k\<rparr>)\<lparr>idx_reads := Suc (idx_reads (records\<lparr>idx_reads := k\<rparr>))\<rparr>)\<rparr>)"
    using assms(2,3) nm
    by (simp add: FastaDataset_getitem_def fasta_read_store_def keys key rs idx_getitem_def r)
  then show ?thesis using rs r by blast
qed

lemma fasta_lazy_step: "fasta_lazy records ds \<Longrightarrow> fasta_lazy records (snd (FastaDataset_getitem ds i))"
proof (cases "0 \<le> i \<and> i < fd_num_examples ds")
  case True
  assume l: "fasta_lazy records ds"
  from fasta_lazy_getitem [OF l] True obtain r rs where
    "fd_records ds = Some rs"
    "FastaDataset_getitem ds i =
       (Inr (fasta_item r), ds\<lparr>fd_records := Some (rs\<lparr>idx_reads := Suc (idx_reads rs)\<rparr>)\<rparr>)"
    by blast
  then show ?thesis using l by (auto simp: fasta_lazy_def)
next
  case False
  assume "fasta_lazy records ds"
  then show ?thesis using False by (auto simp: FastaDataset_getitem_def)
qed

lemma fasta_lazy_after: "fasta_lazy records ds \<Longrightarrow> fasta_lazy records (fasta_after ds indices)"
  by (induction indices rule: rev_induct) (simp_all add: fasta_after_def fasta_lazy_step)

text \<open>
  C8. Constructed with \<^verbatim>\<open>in_memory=False\<close> on an existing file whose index holds fewer than
  10000 records, the dataset ends in in-memory mode: the cache holds the record of every
  key, no handle to the store is kept, and after any sequence of accesses an in-range
  \<^verbatim>\<open>__getitem__(i)\<close> returns the item of cache slot \<open>i\<close> and leaves the dataset unchanged.
  With 10000 records or more the dataset keeps no cache, and after any sequence of
  accesses an in-range \<^verbatim>\<open>__getitem__(i)\<close> returns the record that the store holds under
  key \<open>i\<close> and performs exactly one more lookup on the store handle.
\<close>

theorem fasta_small_file_upgrade:
  assumes "path_exists fs data_file" and "seqio_index fs data_file = Inr records"
  shows "(int (idx_len records) < 10000 \<longrightarrow>
           (\<exists>ds cache. FastaDataset_init fs data_file False = Inr ds \<and>
              fd_in_memory ds \<and> fd_cache ds = Some (map Some cache) \<and>
              fd_records ds = None \<and> fd_keys ds = None \<and>
              length cache = idx_len records \<and>
              (\<forall>j<idx_len records.
                 map_of (idx_entries records) (idx_keys records ! j) = Some (cache ! j)) \<and>
              (\<forall>indices i. 0 \<le> i \<and> i < FastaDataset_len ds \<longrightarrow>
                 FastaDataset_getitem (fasta_after ds indices) i =
                   (Inr (fasta_item (cache ! nat i)), ds)))) \<and>
         (10000 \<le> int (idx_len records) \<longrightarrow>
           (\<exists>ds. FastaDataset_init fs data_file False = Inr ds \<and>
              \<not> fd_in_memory ds \<and> fd_cache ds = None \<and> fd_records ds = Some records \<and>
              (\<forall>indices i. 0 \<le> i \<and> i < FastaDataset_len ds \<longrightarrow>
                 (\<exists>r rs. fd_records (fasta_after ds indices) = Some rs \<and>
                    map_of (idx_entries records) (idx_keys records ! nat i) = Some r \<and>
                    FastaDataset_getitem (fasta_after ds indices) i =
                      (Inr (fasta_item r),
                       (fasta_after ds indices)
                         \<lparr>fd_records := Some (rs\<lparr>idx_reads := Suc (idx_reads rs)\<rparr>)\<rparr>)))))"
proof (intro conjI impI)
  assume small: "int (idx_len records) < 10000"
  obtain cache records' where v: "idx_values records = Inr (cache, records')"
    and len: "length cache = idx_len records"
    and pt: "\<forall>j<idx_len records.
               map_of (idx_entries records) (idx_keys records ! j) = Some (cache ! j)"
    using idx_values_loaded [of records] by blast
  let ?ds = "\<lparr>fd_cache = Some (map Some cache), fd_records = None, fd_keys = None,
              fd_in_memory = True, fd_num_examples = int (idx_len records)\<rparr>"
  have init: "FastaDataset_init fs data_file False = Inr ?ds"
    using assms small by (simp add: FastaDataset_init_def v)
  have get: "\<forall>indices i. 0 \<le> i \<and> i < FastaDataset_len ?ds \<longrightarrow>
                 FastaDataset_getitem (fasta_after ?ds indices) i =
                   (Inr (fasta_item (cache ! nat i)), ?ds)"
  proof (intro allI impI)
    fix indices i assume i: "0 \<le> i \<and> i < FastaDataset_len ?ds"
    have same: "fasta_after ?ds indices = ?ds"
      by (rule fasta_cached_after [where cache = cache]) (simp_all add: len)
    show "FastaDataset_getitem (fasta_after ?ds indices) i =
            (Inr (fasta_item (cache ! nat i)), ?ds)"
      unfolding same using i
      by (intro fasta_cached_getitem) (simp_all add: len FastaDataset_len_def)
  qed
  show "\<exists>ds cache. FastaDataset_init fs data_file False = Inr ds \<and>
              fd_in_memory ds \<and> fd_cache ds = Some (map Some cache) \<and>
              fd_records ds = None \<and> fd_keys ds = None \<and>
              length cache = idx_len records \<and>
              (\<forall>j<idx_len records.
                 map_of (idx_entries records) (idx_keys records ! j) = Some (cache ! j)) \<and>
              (\<forall>indices i. 0 \<le> i \<and> i < FastaDataset_len ds \<longrightarrow>
                 FastaDataset_getitem (fasta_after ds indices) i =
                   (Inr (fasta_item (cache ! nat i)), ds))"
    apply (rule exI [of _ ?ds], rule exI [of _ cache])
    using init len pt get by simp
next
  assume large: "10000 \<le> int (idx_len records)"
  let ?ds = "\<lparr>fd_cache = None, fd_records = Some records, fd_keys = Some (idx_keys records),
              fd_in_memory = False, fd_num_examples = int (idx_len records)\<rparr>"
  have init: "FastaDataset_init fs data_file False = Inr ?ds"
    using assms large by (simp add: FastaDataset_init_def)
  have "records\<lparr>idx_reads := idx_reads records\<rparr> = records" by simp
  then have lazy: "fasta_lazy records ?ds"
    unfolding fasta_lazy_def by (metis fasta_dataset.select_convs)
  have get: "\<forall>indices i. 0 \<le> i \<and> i < FastaDataset_len ?ds \<longrightarrow>
                 (\<exists>r rs. fd_records (fasta_after ?ds indices) = Some rs \<and>
                    map_of (idx_entries records) (idx_keys records ! nat i) = Some r \<and>
                    FastaDataset_getitem (fasta_after ?ds indices) i =
                      (Inr (fasta_item r),
                       (fasta_after ?ds indices)
                         \<lparr>fd_records := Some (rs\<lparr>idx_reads := Suc (idx_reads rs)\<rparr>)\<rparr>))"
  proof (intro allI impI)
    fix indices i assume i: "0 \<le> i \<and> i < FastaDataset_len ?ds"
    have l: "fasta_lazy records (fasta_after ?ds indices)"
      using lazy by (rule fasta_lazy_after)
    then have "fd_num_examples (fasta_after ?ds indices) = int (idx_len records)"
      by (simp add: fasta_lazy_def)
    with i have "0 \<le> i" "i < fd_num_examples (fasta_after ?ds indices)"
      by (simp_all add: FastaDataset_len_def)
    from fasta_lazy_getitem [OF l this]
    show "\<exists>r rs. fd_records (fasta_after ?ds indices) = Some rs \<and>
                    map_of (idx_entries records) (idx_keys records ! nat i) = Some r \<and>
                    FastaDataset_getitem (fasta_after ?ds indices) i =
                      (Inr (fasta_item r),
                       (fasta_after ?ds indices)
                         \<lparr>fd_records := Some (rs\<lparr>idx_reads := Suc (idx_reads rs)\<rparr>)\<rparr>)" .
  qed
  show "\<exists>ds. FastaDataset_init fs data_file False = Inr ds \<and>
              \<not> fd_in_memory ds \<and> fd_cache ds = None \<and> fd_records ds = Some records \<and>
              (\<forall>indices i. 0 \<le> i \<and> i < FastaDataset_len ds \<longrightarrow>
                 (\<exists>r rs. fd_records (fasta_after ds indices) = Some rs \<and>
                    map_of (idx_entries records) (idx_keys records ! nat i) = Some r \<and>
                    FastaDataset_getitem (fasta_after ds indices) i =
                      (Inr (fasta_item r),
                       (fasta_after ds indices)
                         \<lparr>fd_records := Some (rs\<lparr>idx_reads := Suc (idx_reads rs)\<rparr>)\<rparr>)))"
    apply (rule exI [of _ ?ds])
    using init get by simp
qed

theorem fasta_small_file_upgrade_witness:
  "path_exists demo_fs ''demo.fasta'' \<and> seqio_index demo_fs ''demo.fasta'' = Inr demo_records \<and>
   int (idx_len demo_records) < 10000 \<and>
   (\<exists>ds cache. FastaDataset_init demo_fs ''demo.fasta'' False = Inr ds \<and> fd_in_memory ds \<and>
      fd_cache ds = Some (map Some cache) \<and> length cache = 2 \<and>
      FastaDataset_getitem ds 1 = (Inr (fasta_item (cache ! 1)), ds)) \<and>
   path_exists big_fs ''big.fasta'' \<and> seqio_index big_fs ''big.fasta'' = Inr big_records \<and>
   10000 \<le> int (idx_len big_records) \<and>
   (\<exists>ds r rs. FastaDataset_init big_fs ''big.fasta'' False = Inr ds \<and> \<not> fd_in_memory ds \<and>
      fd_records ds = Some rs \<and>
      FastaDataset_getitem ds 0 =
        (Inr (fasta_item r), ds\<lparr>fd_records := Some (rs\<lparr>idx_reads := Suc (idx_reads rs)\<rparr>)\<rparr>))"
proof -
  have s1: "path_exists demo_fs ''demo.fasta''" by (simp add: demo_fs_def)
  have s2: "seqio_index demo_fs ''demo.fasta'' = Inr demo_records" by (simp add: demo_fs_def)
  have s3: "idx_len demo_records = 2" by (simp add: idx_len_def demo_records_def)
  have b1: "path_exists big_fs ''big.fasta''" by (simp add: big_fs_def demo_fs_def)
  have b2: "seqio_index big_fs ''big.fasta'' = Inr big_records" by (simp add: big_fs_def)
  have b3: "idx_len big_records = 10000" by (simp add: idx_len_def big_records_def)
  from fasta_small_file_upgrade [OF s1 s2] s3
  obtain ds cache where
    "FastaDataset_init demo_fs ''demo.fasta'' False = Inr ds" "fd_in_memory ds"
    "fd_cache ds = Some (map Some cache)" "length cache = 2"
    and g: "\<forall>indices i. 0 \<le> i \<and> i < FastaDataset_len ds \<longrightarrow>
             FastaDataset_getitem (fasta_after ds indices) i = (Inr (fasta_item (cache ! nat i)), ds)"
    by auto
  moreover have "FastaDataset_len ds = 2"
    using calculation(1) demo_fasta_init by (auto simp: FastaDataset_len_def)
  then have "FastaDataset_getitem ds 1 = (Inr (fasta_item (cache ! 1)), ds)"
    using g [rule_format, of 1 "[]"] by (simp add: fasta_after_def)
  ultimately have small: "\<exists>ds cache. FastaDataset_init demo_fs ''demo.fasta'' False = Inr ds \<and>
      fd_in_memory ds \<and> fd_cache ds = Some (map Some cache) \<and> length cache = 2 \<and>
      FastaDataset_getitem ds 1 = (Inr (fasta_item (cache ! 1)), ds)"
    by blast
  from fasta_small_file_upgrade [OF b1 b2] b3
  obtain bd where bi: "FastaDataset_init big_fs ''big.fasta'' False = Inr bd"
    and bm: "\<not> fd_in_memory bd"
    and bg: "\<forall>indices i. 0 \<le> i \<and> i < FastaDataset_len bd \<longrightarrow>
                 (\<exists>r rs. fd_records (fasta_after bd indices) = Some rs \<and>
                    map_of (idx_entries big_records) (idx_keys big_records ! nat i) = Some r \<and>
                    FastaDataset_getitem (fasta_after bd indices) i =
                      (Inr (fasta_item r),
                       (fasta_after bd indices)
                         \<lparr>fd_records := Some (rs\<lparr>idx_reads := Suc (idx_reads rs)\<rparr>)\<rparr>))"
    by auto
  have "FastaDataset_len bd = 10000"
    using bi b1 b2 b3 by (auto simp: FastaDataset_init_def FastaDataset_len_def)
  then obtain r rs where "fd_records bd = Some rs"
    "FastaDataset_getitem bd 0 =
        (Inr (fasta_item r), bd\<lparr>fd_records := Some (rs\<lparr>idx_reads := Suc (idx_reads rs)\<rparr>)\<rparr>)"
    using bg [rule_format, of 0 "[]"] by (auto simp: fasta_after_def)
  with bi bm have large: "\<exists>ds r rs. FastaDataset_init big_fs ''big.fasta'' False = Inr ds \<and>
      \<not> fd_in_memory ds \<and> fd_records ds = Some rs \<and>
      FastaDataset_getitem ds 0 =
        (Inr (fasta_item r), ds\<lparr>fd_records := Some (rs\<lparr>idx_reads := Suc (idx_reads rs)\<rparr>)\<rparr>)"
    by blast
  show ?thesis using s1 s2 s3 small b1 b2 b3 large by simp
qed

section \<open>Task datasets: validation of the mode\<close>

text \<open>
  C7. Each of the six task datasets checks \<open>mode\<close> against its own fixed set first. For a
  mode outside the set the constructor returns the \<^verbatim>\<open>ValueError\<close> whose message contains
  the mode and the list of allowed modes, whatever the registry and the file system are
  (they are not consulted); for a mode inside the set the check raises nothing and the
  constructor continues with the \<^verbatim>\<open>TAPEDataset\<close> constructor on the file of that mode.
\<close>

theorem task_mode_validation:
  "(mode \<notin> {''train'', ''valid'', ''holdout''} \<longrightarrow>
      PfamDataset_init reg fs data_path mode tokenizer in_memory =
        Inl (ValueError (''Unrecognized mode: '' @ mode @
               ''. Must be one of ['train', 'valid', 'holdout']''))) \<and>
   (mode \<in> {''train'', ''valid'', ''holdout''} \<longrightarrow>
      PfamDataset_init reg fs data_path mode tokenizer in_memory =
        TAPEDataset_init reg fs data_path (''pfam/pfam_'' @ mode @ ''.lmdb'')
          tokenizer in_memory False) \<and>
   (mode \<notin> {''train'', ''valid'', ''test''} \<longrightarrow>
      FluorescenceDataset_init reg fs data_path mode tokenizer in_memory =
        Inl (ValueError (''Unrecognized mode: '' @ mode @
               ''. Must be one of ['train', 'valid', 'test']'')) \<and>
      StabilityDataset_init reg fs data_path mode tokenizer in_memory =
        Inl (ValueError (''Unrecognized mode: '' @ mode @
               ''. Must be one of ['train', 'valid', 'test']''))) \<and>
   (mode \<in> {''train'', ''valid'', ''test''} \<longrightarrow>
      FluorescenceDataset_init reg fs data_path mode tokenizer in_memory =
        TAPEDataset_init reg fs data_path (''fluorescence/fluorescence_'' @ mode @ ''.lmdb'')
          tokenizer in_memory True \<and>
      StabilityDataset_init reg fs data_path mode tokenizer in_memory =
        TAPEDataset_init reg fs data_path (''stability/stability_'' @ mode @ ''.lmdb'')
          tokenizer in_memory True) \<and>
   (mode \<notin> {''train'', ''valid'', ''test_fold_holdout'', ''test_family_holdout'',
              ''test_superfamily_holdout''} \<longrightarrow>
      RemoteHomologyDataset_init reg fs data_path mode tokenizer in_memory =
        Inl (ValueError (''Unrecognized mode: '' @ mode @
               ''. Must be one of ['train', 'valid', 'test_fold_holdout', 'test_family_holdout', 'test_superfamily_holdout']''))) \<and>
   (mode \<in> {''train'', ''valid'', ''test_fold_holdout'', ''test_family_holdout'',
              ''test_superfamily_holdout''} \<longrightarrow>
      RemoteHomologyDataset_init reg fs data_path mode tokenizer in_memory =
        TAPEDataset_init reg fs data_path
          (''remote_homology/remote_homology_'' @ mode @ ''.lmdb'') tokenizer in_memory True) \<and>
   (mode \<notin> {''train'', ''train_unfiltered'', ''valid'', ''test''} \<longrightarrow>
      ProteinnetDataset_init reg fs data_path mode tokenizer in_memory =
        Inl (ValueError (''Unrecognized mode: '' @ mode @
               ''. Must be one of ['train', 'train_unfiltered', 'valid', 'test']''))) \<and>
   (mode \<in> {''train'', ''train_unfiltered'', ''valid'', ''test''} \<longrightarrow>
      ProteinnetDataset_init reg fs data_path mode tokenizer in_memory =
        TAPEDataset_init reg fs data_path (''proteinnet/proteinnet_'' @ mode @ ''.lmdb'')
          tokenizer in_memory True) \<and>
   (mode \<notin> {''train'', ''valid'', ''casp12'', ''ts115'', ''cb513''} \<longrightarrow>
      SecondaryStructureDataset_init reg fs data_path mode tokenizer in_memory num_classes =
        Inl (ValueError (''Unrecognized mode: '' @ mode @
               ''. Must be one of ['train', 'valid', 'casp12', 'ts115', 'cb513']''))) \<and>
   (mode \<in> {''train'', ''valid'', ''casp12'', ''ts115'', ''cb513''} \<longrightarrow>
      SecondaryStructureDataset_init reg fs data_path mode tokenizer in_memory num_classes =
        (case TAPEDataset_init reg fs data_path
                (''secondary_structure/secondary_structure_'' @ mode @ ''.lmdb'')
                tokenizer in_memory False of
           Inl e \<Rightarrow> Inl e
         | Inr base \<Rightarrow> Inr \<lparr>ss_base = base, ss_num_classes = num_classes\<rparr>))"
proof (intro conjI impI)
  assume "mode \<notin> {''train'', ''valid'', ''holdout''}"
  then show "PfamDataset_init reg fs data_path mode tokenizer in_memory =
        Inl (ValueError (''Unrecognized mode: '' @ mode @
               ''. Must be one of ['train', 'valid', 'holdout']''))"
    unfolding PfamDataset_init_def by simp
next
  assume "mode \<in> {''train'', ''valid'', ''holdout''}"
  then show "PfamDataset_init reg fs data_path mode tokenizer in_memory =
        TAPEDataset_init reg fs data_path (''pfam/pfam_'' @ mode @ ''.lmdb'')
          tokenizer in_memory False"
    unfolding PfamDataset_init_def by simp
next
  assume "mode \<notin> {''train'', ''valid'', ''test''}"
  then show "FluorescenceDataset_init reg fs data_path mode tokenizer in_memory =
        Inl (ValueError (''Unrecognized mode: '' @ mode @
               ''. Must be one of ['train', 'valid', 'test']''))"
    unfolding FluorescenceDataset_init_def by simp
next
  assume "mode \<notin> {''train'', ''valid'', ''test''}"
  then show "StabilityDataset_init reg fs data_path mode tokenizer in_memory =
        Inl (ValueError (''Unrecognized mode: '' @ mode @
               ''. Must be one of ['train', 'valid', 'test']''))"
    unfolding StabilityDataset_init_def by simp
next
  assume "mode \<in> {''train'', ''valid'', ''test''}"
  then show "FluorescenceDataset_init reg fs data_path mode tokenizer in_memory =
        TAPEDataset_init reg fs data_path (''fluorescence/fluorescence_'' @ mode @ ''.lmdb'')
          tokenizer in_memory True"
    unfolding FluorescenceDataset_init_def by simp
next
  assume "mode \<in> {''train'', ''valid'', ''test''}"
  then show "StabilityDataset_init reg fs data_path mode tokenizer in_memory =
        TAPEDataset_init reg fs data_path (''stability/stability_'' @ mode @ ''.lmdb'')
          tokenizer in_memory True"
    unfolding StabilityDataset_init_def by simp
next
  assume "mode \<notin> {''train'', ''valid'', ''test_fold_holdout'', ''test_family_holdout'',
              ''test_superfamily_holdout''}"
  then show "RemoteHomologyDataset_init reg fs data_path mode tokenizer in_memory =
        Inl (ValueError (''Unrecognized mode: '' @ mode @
               ''. Must be one of ['train', 'valid', 'test_fold_holdout', 'test_family_holdout', 'test_superfamily_holdout']''))"
    unfolding RemoteHomologyDataset_init_def by simp
next
  assume "mode \<in> {''train'', ''valid'', ''test_fold_holdout'', ''test_family_holdout'',
              ''test_superfamily_holdout''}"
  then show "RemoteHomologyDataset_init reg fs data_path mode tokenizer in_memory =
        TAPEDataset_init reg fs data_path
          (''remote_homology/remote_homology_'' @ mode @ ''.lmdb'') tokenizer in_memory True"
    unfolding RemoteHomologyDataset_init_def by simp
next
  assume "mode \<notin> {''train'', ''train_unfiltered'', ''valid'', ''test''}"
  then show "ProteinnetDataset_init reg fs data_path mode tokenizer in_memory =
        Inl (ValueError (''Unrecognized mode: '' @ mode @
               ''. Must be one of ['train', 'train_unfiltered', 'valid', 'test']''))"
    unfolding ProteinnetDataset_init_def by simp
next
  assume "mode \<in> {''train'', ''train_unfiltered'', ''valid'', ''test''}"
  then show "ProteinnetDataset_init reg fs data_path mode tokenizer in_memory =
        TAPEDataset_init reg fs data_path (''proteinnet/proteinnet_'' @ mode @ ''.lmdb'')
          tokenizer in_memory True"
    unfolding ProteinnetDataset_init_def by simp
next
  assume "mode \<notin> {''train'', ''valid'', ''casp12'', ''ts115'', ''cb513''}"
  then show "SecondaryStructureDataset_init reg fs data_path mode tokenizer in_memory num_classes =
        Inl (ValueError (''Unrecognized mode: '' @ mode @
               ''. Must be one of ['train', 'valid', 'casp12', 'ts115', 'cb513']''))"
    unfolding SecondaryStructureDataset_init_def by simp
next
  assume "mode \<in> {''train'', ''valid'', ''casp12'', ''ts115'', ''cb513''}"
  then show "SecondaryStructureDataset_init reg fs data_path mode tokenizer in_memory num_classes =
        (case TAPEDataset_init reg fs data_path
                (''secondary_structure/secondary_structure_'' @ mode @ ''.lmdb'')
                tokenizer in_memory False of
           Inl e \<Rightarrow> Inl e
         | Inr base \<Rightarrow> Inr \<lparr>ss_base = base, ss_num_classes = num_classes\<rparr>)"
    unfolding SecondaryStructureDataset_init_def by simp
qed

lemma demo_tape_init:
  "TAPEDataset_init demo_registry demo_fs ''data'' (''pfam/pfam_'' @ ''train'' @ ''.lmdb'')
     (ByName ''bpe'') False False =
   Inr \<lparr>td_tokenizer = demo_tokenizer, td_convert_tokens_to_ids = False,
        td_dataset = Lmdb \<lparr>ld_env = demo_env, ld_cache = None, ld_in_memory = False,
                            ld_num_examples = 2\<rparr>\<rparr>"
  by (simp add: TAPEDataset_init_def demo_registry_def demo_fs_def open_record_source_def
        path_suffix_def path_name_def LMDBDataset_init_def pkl_loads_get_def demo_env_def)

theorem task_mode_validation_witness:
  "''holdout '' \<notin> {''train'', ''valid'', ''holdout''} \<and>
   ''holdout '' \<notin> {''train'', ''valid'', ''test''} \<and>
   ''holdout '' \<notin> {''train'', ''valid'', ''test_fold_holdout'', ''test_family_holdout'',
                     ''test_superfamily_holdout''} \<and>
   ''holdout '' \<notin> {''train'', ''train_unfiltered'', ''valid'', ''test''} \<and>
   ''holdout '' \<notin> {''train'', ''valid'', ''casp12'', ''ts115'', ''cb513''} \<and>
   PfamDataset_init demo_registry demo_fs ''data'' ''holdout '' (ByName ''bpe'') False =
     Inl (ValueError ''Unrecognized mode: holdout . Must be one of ['train', 'valid', 'holdout']'') \<and>
   FluorescenceDataset_init demo_registry demo_fs ''data'' ''holdout '' (ByName ''bpe'') False =
     Inl (ValueError ''Unrecognized mode: holdout . Must be one of ['train', 'valid', 'test']'') \<and>
   StabilityDataset_init demo_registry demo_fs ''data'' ''holdout '' (ByName ''bpe'') False =
     Inl (ValueError ''Unrecognized mode: holdout . Must be one of ['train', 'valid', 'test']'') \<and>
   RemoteHomologyDataset_init demo_registry demo_fs ''data'' ''holdout '' (ByName ''bpe'') False =
     Inl (ValueError ''Unrecognized mode: holdout . Must be one of ['train', 'valid', 'test_fold_holdout', 'test_family_holdout', 'test_superfamily_holdout']'') \<and>
   ProteinnetDataset_init demo_registry demo_fs ''data'' ''holdout '' (ByName ''bpe'') False =
     Inl (ValueError ''Unrecognized mode: holdout . Must be one of ['train', 'train_unfiltered', 'valid', 'test']'') \<and>
   SecondaryStructureDataset_init demo_registry demo_fs ''data'' ''holdout '' (ByName ''bpe'') False 3 =
     Inl (ValueError ''Unrecognized mode: holdout . Must be one of ['train', 'valid', 'casp12', 'ts115', 'cb513']'') \<and>
   ''train'' \<in> {''train'', ''valid'', ''holdout''} \<and>
   ''train'' \<in> {''train'', ''valid'', ''test''} \<and>
   ''train'' \<in> {''train'', ''valid'', ''test_fold_holdout'', ''test_family_holdout'',
                  ''test_superfamily_holdout''} \<and>
   ''train'' \<in> {''train'', ''train_unfiltered'', ''valid'', ''test''} \<and>
   ''train'' \<in> {''train'', ''valid'', ''casp12'', ''ts115'', ''cb513''} \<and>
   PfamDataset_init demo_registry demo_fs ''data'' ''train'' (ByName ''bpe'') False =
     Inr \<lparr>td_tokenizer = demo_tokenizer, td_convert_tokens_to_ids = False,
          td_dataset = Lmdb \<lparr>ld_env = demo_env, ld_cache = None, ld_in_memory = False,
                              ld_num_examples = 2\<rparr>\<rparr>"
  using task_mode_validation [of "''holdout ''" demo_registry demo_fs "''data''" "ByName ''bpe''" False 3]
    task_mode_validation [of "''train''" demo_registry demo_fs "''data''" "ByName ''bpe''" False 3]
    demo_tape_init
  by simp

section \<open>TAPEDataset: boundary tokens and attention mask\<close>

lemma record_source_getitem_in_range:
  "fst (record_source_getitem src index) = Inr item \<Longrightarrow>
   0 \<le> index \<and> index < record_source_len src"
  by (cases src)
     (auto simp: record_source_getitem_def record_source_len_def LMDBDataset_getitem_def
        FastaDataset_getitem_def LMDBDataset_len_def FastaDataset_len_def
        split: prod.splits if_splits)

text \<open>
  C4. Whenever the underlying record source returns, for the index, a record (so the index
  is in range) whose
  \<^verbatim>\<open>primary\<close> sequence has length \<open>L\<close>, and the tokenizer emits one token per residue of
  that sequence, \<^verbatim>\<open>TAPEDataset.__getitem__\<close> returns that record with a token sequence of
  length \<open>L + 2\<close> and the attention mask of \<open>L + 2\<close> ones. The token sequence is
  \<^verbatim>\<open>cls\<close>, the tokens of the sequence, \<^verbatim>\<open>sep\<close>; with \<^verbatim>\<open>convert_tokens_to_ids\<close> set it is the
  array of their ids, so it begins with the id of \<^verbatim>\<open>cls\<close> and ends with the id of \<^verbatim>\<open>sep\<close>.
\<close>

theorem tape_getitem_boundary_tokens:
  assumes "fst (record_source_getitem (td_dataset ds) index) = Inr item"
    and "item ''primary'' = Some (PyStr primary)"
    and "length (tokenize (td_tokenizer ds) primary) = length primary"
  shows "0 \<le> index \<and> index < TAPEDataset_len ds \<and>
         (\<exists>tokens attention_mask.
           fst (TAPEDataset_getitem ds index) = Inr (item, tokens, attention_mask) \<and>
           token_seq_len tokens = length primary + 2 \<and>
           attention_mask = replicate (length primary + 2) 1 \<and>
           (if td_convert_tokens_to_ids ds
            then \<exists>ids. tokens = TokenIds ids \<and>
                   ids = map (convert_token_to_id (td_tokenizer ds))
                           (cls_token (td_tokenizer ds) # tokenize (td_tokenizer ds) primary
                              @ [sep_token (td_tokenizer ds)]) \<and>
                   hd ids = convert_token_to_id (td_tokenizer ds) (cls_token (td_tokenizer ds)) \<and>
                   last ids = convert_token_to_id (td_tokenizer ds) (sep_token (td_tokenizer ds))
            else \<exists>ts. tokens = TokenStrs ts \<and>
                   ts = cls_token (td_tokenizer ds) # tokenize (td_tokenizer ds) primary
                          @ [sep_token (td_tokenizer ds)] \<and>
                   hd ts = cls_token (td_tokenizer ds) \<and>
                   last ts = sep_token (td_tokenizer ds)))"
proof -
  have range: "0 \<le> index \<and> index < TAPEDataset_len ds"
    using record_source_getitem_in_range [OF assms(1)] by (simp add: TAPEDataset_len_def)
  obtain src' where g: "record_source_getitem (td_dataset ds) index = (Inr item, src')"
    using assms(1) by (cases "record_source_getitem (td_dataset ds) index") simp
  show ?thesis
  proof (cases "td_convert_tokens_to_ids ds")
    case True
    then show ?thesis
      using assms(2,3) range
      by (simp add: TAPEDataset_getitem_def g Let_def convert_tokens_to_ids_def last_map)
  next
    case False
    then show ?thesis
      using assms(2,3) range by (simp add: TAPEDataset_getitem_def g Let_def)
  qed
qed

lemma demo_tape_source_getitem:
  "fst (record_source_getitem
         (Lmdb \<lparr>ld_env = demo_env, ld_cache = None, ld_in_memory = False, ld_num_examples = 2\<rparr>) 1)
   = Inr demo_item"
  by (simp add: record_source_getitem_def LMDBDataset_getitem_def lmdb_read_store_def
        demo_env_def pkl_loads_get_def)

theorem tape_getitem_boundary_tokens_witness:
  "fst (TAPEDataset_getitem
         \<lparr>td_tokenizer = demo_tokenizer, td_convert_tokens_to_ids = True,
          td_dataset = Lmdb \<lparr>ld_env = demo_env, ld_cache = None, ld_in_memory = False,
                              ld_num_examples = 2\<rparr>\<rparr> 1)
   = Inr (demo_item, TokenIds [2, 4, 5, 6, 7, 3], [1, 1, 1, 1, 1, 1])"
proof -
  let ?ds = "\<lparr>td_tokenizer = demo_tokenizer, td_convert_tokens_to_ids = True,
          td_dataset = Lmdb \<lparr>ld_env = demo_env, ld_cache = None, ld_in_memory = False,
                              ld_num_examples = 2\<rparr>\<rparr>"
  have h1: "fst (record_source_getitem (td_dataset ?ds) 1) = Inr demo_item"
    using demo_tape_source_getitem by simp
  have h2: "demo_item ''primary'' = Some (PyStr ''MKVL'')" by (simp add: demo_item_def)
  have h3: "length (tokenize (td_tokenizer ?ds) ''MKVL'') = length ''MKVL''"
    by (simp add: demo_tokenizer_def)
  from tape_getitem_boundary_tokens [OF h1 h2 h3]
  show ?thesis
    by (auto simp: demo_tokenizer_def numeral_eq_Suc)
qed

section \<open>The masking procedure\<close>





















section \<open>Secondary structure: labels and token lengths\<close>

lemma py_str_int_3_8: "py_str_int 3 = ''3''" "py_str_int 8 = ''8''"
  by (simp_all add: py_str_int_def string_of_nat.simps [of 3] string_of_nat.simps [of 8])

lemma ss_demo_init:
  "SecondaryStructureDataset_init demo_bpe_registry empty_fs ''data'' ''train'' (ByName ''bpe'') False 3
     = Inr (ss_dataset_of demo_bpe_tokenizer empty_env 1 3)"
  by (simp add: SecondaryStructureDataset_init_def TAPEDataset_init_def demo_bpe_registry_def
        empty_fs_def demo_fs_def open_record_source_def path_suffix_def path_name_def
        LMDBDataset_init_def pkl_loads_get_def empty_env_def ss_dataset_of_def)

lemma ss_demo_empty_getitem:
  "fst (SecondaryStructureDataset_getitem (ss_dataset_of demo_bpe_tokenizer empty_env 1 3) 0)
     = Inl (IndexError_msg ''index 0 is out of bounds for axis 0 with size 0'')"
  by (simp add: SecondaryStructureDataset_getitem_def ss_dataset_of_def TAPEDataset_getitem_def
        record_source_getitem_def LMDBDataset_getitem_def lmdb_read_store_def pkl_loads_get_def
        empty_env_def empty_item_def demo_bpe_tokenizer_def demo_tokenizer_def py_str_int_3_8
        bpe_token_lengths_def Let_def)


lemma TAPEDataset_init_convert:
  "TAPEDataset_init reg fs data_path data_file tokenizer in_memory convert = Inr ds \<Longrightarrow>
   td_convert_tokens_to_ids ds = convert"
  by (auto simp: TAPEDataset_init_def Let_def split: sum.splits if_splits tokenizer_arg.splits)

lemma TAPEDataset_getitem_convert:
  "td_convert_tokens_to_ids (snd (TAPEDataset_getitem ds index)) = td_convert_tokens_to_ids ds"
  by (auto simp: TAPEDataset_getitem_def Let_def
           split: prod.splits sum.splits option.splits pyval.splits)

text \<open>A constructed secondary-structure dataset hands token strings, not ids, to
  \<^verbatim>\<open>__getitem__\<close>, and keeps doing so after any access.\<close>

lemma SecondaryStructureDataset_init_convert:
  "SecondaryStructureDataset_init reg fs data_path mode tokenizer in_memory num_classes = Inr ds
   \<Longrightarrow> \<not> td_convert_tokens_to_ids (ss_base ds)"
  by (auto simp: SecondaryStructureDataset_init_def split: if_splits sum.splits
           dest: TAPEDataset_init_convert)

lemma SecondaryStructureDataset_getitem_convert:
  "td_convert_tokens_to_ids (ss_base (snd (SecondaryStructureDataset_getitem ds index)))
     = td_convert_tokens_to_ids (ss_base ds)"
  using TAPEDataset_getitem_convert [of "ss_base ds" index]
  by (auto simp: SecondaryStructureDataset_getitem_def Let_def
           split: prod.splits sum.splits option.splits pyval.splits token_seq.splits)

lemma bpe_token_lengths_wrapped:
  "toks \<noteq> [] \<Longrightarrow>
   bpe_token_lengths (c # toks @ [s]) =
     Inr ([1] @ (int (length (hd toks)) - 1) # map (\<lambda>t. int (length t)) (tl toks) @ [1])"
  by (cases toks) (simp_all add: bpe_token_lengths_def butlast_append)

lemma bpe_token_lengths_no_tokens:
  "bpe_token_lengths [c, s] =
     Inl (IndexError_msg ''index 0 is out of bounds for axis 0 with size 0'')"
  by (simp add: bpe_token_lengths_def)

text \<open>
  C9, for records that have at least one token. The dataset is a constructed one (its
  token sequences are strings), the index is in range and the record source returns a
  record with a \<^verbatim>\<open>primary\<close> sequence and the label array of the selected class count (key
  \<^verbatim>\<open>ss3\<close> or \<^verbatim>\<open>ss8\<close>). Then \<^verbatim>\<open>__getitem__\<close> returns the labels padded with one \<open>-1\<close> at each
  end. With a \<^verbatim>\<open>BPETokenizer\<close> whose tokenization of the sequence is not empty, the token
  lengths are 1, the length of the first token minus one, the lengths of the other tokens,
  1; with any other tokenizer the component is \<^verbatim>\<open>None\<close>.
\<close>

theorem ss_getitem_labels_and_lengths:
  assumes "\<not> td_convert_tokens_to_ids (ss_base ds)"
    and "fst (record_source_getitem (td_dataset (ss_base ds)) index) = Inr item"
    and "item ''primary'' = Some (PyStr primary)"
    and "ss_num_classes ds = 3 \<or> ss_num_classes ds = 8"
    and "item (if ss_num_classes ds = 3 then ''ss3'' else ''ss8'') = Some (PyIntArray ss)"
    and "is_BPETokenizer (td_tokenizer (ss_base ds)) \<longrightarrow>
           tokenize (td_tokenizer (ss_base ds)) primary \<noteq> []"
  shows "\<exists>token_ids attention_mask token_lengths.
           fst (SecondaryStructureDataset_getitem ds index) =
             Inr (token_ids, attention_mask, [- 1] @ ss @ [- 1], token_lengths) \<and>
           (if is_BPETokenizer (td_tokenizer (ss_base ds))
            then token_lengths =
                   Some ([1] @
                         (int (length (hd (tokenize (td_tokenizer (ss_base ds)) primary))) - 1) #
                         map (\<lambda>t. int (length t))
                           (tl (tokenize (td_tokenizer (ss_base ds)) primary)) @ [1])
            else token_lengths = None)"
proof -
  let ?tk = "td_tokenizer (ss_base ds)"
  let ?toks = "tokenize ?tk primary"
  obtain src' where g: "record_source_getitem (td_dataset (ss_base ds)) index = (Inr item, src')"
    using assms(2) by (cases "record_source_getitem (td_dataset (ss_base ds)) index") simp
  have base: "TAPEDataset_getitem (ss_base ds) index =
      (Inr (item, TokenStrs (cls_token ?tk # ?toks @ [sep_token ?tk]),
            replicate (length ?toks + 2) 1),
       (ss_base ds)\<lparr>td_dataset := src'\<rparr>)"
    using assms(1,3) by (simp add: TAPEDataset_getitem_def g Let_def)
  have key: "item (''ss'' @ py_str_int (ss_num_classes ds)) = Some (PyIntArray ss)"
    using assms(4,5) by (auto simp: py_str_int_3_8)
  show ?thesis
  proof (cases "is_BPETokenizer ?tk")
    case True
    with assms(6) have ne: "?toks \<noteq> []" by simp
    show ?thesis
      using True key bpe_token_lengths_wrapped [OF ne]
      by (simp add: SecondaryStructureDataset_getitem_def base Let_def)
  next
    case False
    then show ?thesis
      using key
      by (simp add: SecondaryStructureDataset_getitem_def base Let_def)
  qed
qed

lemma demo_ss_source_getitem:
  "fst (record_source_getitem (td_dataset (ss_base (ss_dataset_of tk demo_env 2 n))) 1)
     = Inr demo_item"
  by (simp add: ss_dataset_of_def record_source_getitem_def LMDBDataset_getitem_def
        lmdb_read_store_def demo_env_def pkl_loads_get_def)

theorem ss_getitem_labels_and_lengths_witness:
  "(\<exists>token_ids attention_mask.
      fst (SecondaryStructureDataset_getitem (ss_dataset_of demo_bpe_tokenizer demo_env 2 3) 1) =
        Inr (token_ids, attention_mask, [- 1, 0, 1, 2, 2, - 1], Some [1, 2, 2, 1])) \<and>
   (\<exists>token_ids attention_mask.
      fst (SecondaryStructureDataset_getitem (ss_dataset_of demo_tokenizer demo_env 2 8) 1) =
        Inr (token_ids, attention_mask, [- 1, 3, 4, 7, 7, - 1], None))"
proof -
  let ?b = "ss_dataset_of demo_bpe_tokenizer demo_env 2 3"
  let ?c = "ss_dataset_of demo_tokenizer demo_env 2 8"
  have toks: "tokenize demo_bpe_tokenizer ''MKVL'' = [''_MK'', ''VL'']"
    by (simp add: demo_bpe_tokenizer_def)
  have b1: "\<not> td_convert_tokens_to_ids (ss_base ?b)" by (simp add: ss_dataset_of_def)
  have b2: "fst (record_source_getitem (td_dataset (ss_base ?b)) 1) = Inr demo_item"
    by (rule demo_ss_source_getitem)
  have b3: "demo_item ''primary'' = Some (PyStr ''MKVL'')" by (simp add: demo_item_def)
  have b4: "ss_num_classes ?b = 3 \<or> ss_num_classes ?b = 8" by (simp add: ss_dataset_of_def)
  have b5: "demo_item (if ss_num_classes ?b = 3 then ''ss3'' else ''ss8'')
              = Some (PyIntArray [0, 1, 2, 2])"
    by (simp add: ss_dataset_of_def demo_item_def)
  have b6: "is_BPETokenizer (td_tokenizer (ss_base ?b)) \<longrightarrow>
              tokenize (td_tokenizer (ss_base ?b)) ''MKVL'' \<noteq> []"
    by (simp add: ss_dataset_of_def toks)
  have bt: "td_tokenizer (ss_base ?b) = demo_bpe_tokenizer" by (simp add: ss_dataset_of_def)
  have bpe: "is_BPETokenizer demo_bpe_tokenizer" by (simp add: demo_bpe_tokenizer_def)
  from ss_getitem_labels_and_lengths [OF b1 b2 b3 b4 b5 b6]
  have first: "\<exists>token_ids attention_mask.
      fst (SecondaryStructureDataset_getitem ?b 1) =
        Inr (token_ids, attention_mask, [- 1, 0, 1, 2, 2, - 1], Some [1, 2, 2, 1])"
    unfolding bt using bpe by (auto simp: toks)
  have c1: "\<not> td_convert_tokens_to_ids (ss_base ?c)" by (simp add: ss_dataset_of_def)
  have c2: "fst (record_source_getitem (td_dataset (ss_base ?c)) 1) = Inr demo_item"
    by (rule demo_ss_source_getitem)
  have c4: "ss_num_classes ?c = 3 \<or> ss_num_classes ?c = 8" by (simp add: ss_dataset_of_def)
  have c5: "demo_item (if ss_num_classes ?c = 3 then ''ss3'' else ''ss8'')
              = Some (PyIntArray [3, 4, 7, 7])"
    by (simp add: ss_dataset_of_def demo_item_def)
  have c6: "is_BPETokenizer (td_tokenizer (ss_base ?c)) \<longrightarrow>
              tokenize (td_tokenizer (ss_base ?c)) ''MKVL'' \<noteq> []"
    by (simp add: ss_dataset_of_def demo_tokenizer_def)
  have ct: "td_tokenizer (ss_base ?c) = demo_tokenizer" by (simp add: ss_dataset_of_def)
  have nb: "\<not> is_BPETokenizer demo_tokenizer" by (simp add: demo_tokenizer_def)
  from ss_getitem_labels_and_lengths [OF c1 c2 b3 c4 c5 c6]
  have second: "\<exists>token_ids attention_mask.
      fst (SecondaryStructureDataset_getitem ?c 1) =
        Inr (token_ids, attention_mask, [- 1, 3, 4, 7, 7, - 1], None)"
    unfolding ct using nb by auto
  show ?thesis using first second by blast
qed

text \<open>
  The claim as stated, for every in-range index, fails: on a store whose record 0 has an
  empty sequence, the dataset built by the constructor with a \<^verbatim>\<open>BPETokenizer\<close> has index 0
  in range, and \<^verbatim>\<open>__getitem__(0)\<close> raises \<^verbatim>\<open>IndexError\<close> at \<^verbatim>\<open>token_lengths[0] -= 1\<close>.
\<close>

theorem ss_getitem_empty_record_counterexample:
  "SecondaryStructureDataset_init demo_bpe_registry empty_fs ''data'' ''train'' (ByName ''bpe'')
      False 3 = Inr (ss_dataset_of demo_bpe_tokenizer empty_env 1 3) \<and>
   is_BPETokenizer (td_tokenizer (ss_base (ss_dataset_of demo_bpe_tokenizer empty_env 1 3))) \<and>
   0 < TAPEDataset_len (ss_base (ss_dataset_of demo_bpe_tokenizer empty_env 1 3)) \<and>
   fst (SecondaryStructureDataset_getitem (ss_dataset_of demo_bpe_tokenizer empty_env 1 3) 0)
     = Inl (IndexError_msg ''index 0 is out of bounds for axis 0 with size 0'')"
  using ss_demo_init ss_demo_empty_getitem
  by (simp add: ss_dataset_of_def demo_bpe_tokenizer_def TAPEDataset_len_def
        record_source_len_def LMDBDataset_len_def)

section \<open>Contact maps\<close>

lemma length_pdist_sum: "2 * length (pdist ps) + length ps = length ps * length ps"
  by (induction ps) (auto simp: algebra_simps)

lemma length_pdist: "2 * length (pdist ps) = length ps * (length ps - 1)"
  using length_pdist_sum [of ps] by (simp add: diff_mult_distrib2)

lemma ceil_sqrt_from_reaches:
  "d \<le> m \<Longrightarrow> (m - 1) * (m - 1) < n \<Longrightarrow> n \<le> m * m \<Longrightarrow> ceil_sqrt_from d n = m"
proof (induction "m - d" arbitrary: d)
  case 0
  then show ?case by (simp add: ceil_sqrt_from.simps [of d n])
next
  case (Suc k)
  from Suc.hyps(2) have "d \<le> m - 1" by arith
  then have "d * d \<le> (m - 1) * (m - 1)" by (simp add: mult_le_mono)
  with Suc.prems have "\<not> n \<le> d * d" by simp
  moreover have "ceil_sqrt_from (Suc d) n = m"
    using Suc.hyps(2) Suc.prems by (intro Suc.hyps(1)) arith+
  ultimately show ?case by (simp add: ceil_sqrt_from.simps [of d n])
qed

lemma ceil_sqrt_pairs: "2 \<le> m \<Longrightarrow> ceil_sqrt (m * (m - 1)) = m"
proof -
  assume m: "2 \<le> m"
  then obtain k where k: "m = Suc (Suc k)"
    by (cases m rule: nat.exhaust [case_product nat.exhaust [of "m - 1"]]) auto
  have "(m - 1) * (m - 1) < m * (m - 1)" using k by simp
  moreover have "m * (m - 1) \<le> m * m" by simp
  ultimately show ?thesis unfolding ceil_sqrt_def by (intro ceil_sqrt_from_reaches) simp_all
qed

lemma triangle_rows_pdist:
  "triangle_rows (length ps) (pdist ps) =
     map (\<lambda>i. map (euclidean (ps ! i)) (drop (Suc i) ps)) [0..<length ps]"
proof (induction ps)
  case Nil
  then show ?case by simp
next
  case (Cons p ps)
  have "map (\<lambda>i. map (euclidean ((p # ps) ! i)) (drop (Suc i) (p # ps))) [0..<length (p # ps)]
        = map (euclidean p) ps #
          map (\<lambda>i. map (euclidean (ps ! i)) (drop (Suc i) ps)) [0..<length ps]"
    by (simp add: upt_conv_Cons map_Suc_upt [symmetric] del: upt_Suc)
  then show ?case using Cons by simp
qed


lemma euclidean_commute: "euclidean u v = euclidean v u"
  by (cases u; cases v) (simp add: euclidean_def power2_commute)

lemma euclidean_self: "euclidean u u = 0"
  by (cases u) (simp add: euclidean_def)


text \<open>The square form of the condensed distances of \<open>n \<ge> 1\<close> points.\<close>

lemma squareform_pdist:
  assumes "ps \<noteq> []"
  shows "squareform (pdist ps) =
           Inr (map (\<lambda>i. map (\<lambda>j. if i < j then euclidean (ps ! i) (ps ! j)
                                    else if j < i then euclidean (ps ! j) (ps ! i)
                                    else 0) [0..<length ps]) [0..<length ps])"
proof (cases "pdist ps = []")
  case True
  then have "length ps * (length ps - 1) = 0" using length_pdist [of ps] by simp
  with assms have "length ps = 1" by (cases ps) auto
  then show ?thesis using True by (simp add: squareform_def)
next
  case False
  have n2: "2 \<le> length ps"
  proof (cases ps)
    case Nil
    with False show ?thesis by simp
  next
    case (Cons p qs)
    with False show ?thesis by (cases qs) simp_all
  qed
  have d: "ceil_sqrt (2 * length (pdist ps)) = length ps"
    using ceil_sqrt_pairs [OF n2] by (simp add: length_pdist)
  have rows: "\<And>i j. i < j \<Longrightarrow> j < length ps \<Longrightarrow>
      triangle_rows (length ps) (pdist ps) ! i ! (j - Suc i) = euclidean (ps ! i) (ps ! j)"
    by (simp add: triangle_rows_pdist)
  have chk: "length ps * (length ps - Suc 0) = 2 * length (pdist ps)"
    using length_pdist [of ps] by simp
  have sq: "squareform (pdist ps) =
      Inr (map (\<lambda>i. map (\<lambda>j. if i < j then triangle_rows (length ps) (pdist ps) ! i ! (j - i - 1)
                            else if j < i then triangle_rows (length ps) (pdist ps) ! j ! (i - j - 1)
                            else 0) [0..<length ps]) [0..<length ps])"
    using False chk by (simp add: squareform_def d Let_def)
  have eq: "map (\<lambda>i. map (\<lambda>j. if i < j then triangle_rows (length ps) (pdist ps) ! i ! (j - i - 1)
                            else if j < i then triangle_rows (length ps) (pdist ps) ! j ! (i - j - 1)
                            else 0) [0..<length ps]) [0..<length ps]
      = map (\<lambda>i. map (\<lambda>j. if i < j then euclidean (ps ! i) (ps ! j)
                            else if j < i then euclidean (ps ! j) (ps ! i)
                            else 0) [0..<length ps]) [0..<length ps]"
    by (intro map_cong refl) (auto simp: rows)
  show ?thesis unfolding sq eq ..
qed

text \<open>Every entry of the contact map of a record with at least one residue.\<close>

lemma contact_map_of_entries:
  assumes "length valid_mask = length tertiary" and "tertiary \<noteq> []"
  shows "\<exists>m. contact_map_of tertiary valid_mask = Inr m \<and>
           length m = length tertiary \<and>
           (\<forall>i<length tertiary. length (m ! i) = length tertiary \<and>
              (\<forall>j<length tertiary.
                 m ! i ! j =
                   (if \<not> (valid_mask ! i \<and> valid_mask ! j) then - 1
                    else if euclidean (tertiary ! i) (tertiary ! j) < 8 then 1 else 0)))"
proof -
  let ?n = "length tertiary"
  let ?D = "map (\<lambda>i. map (\<lambda>j. if i < j then euclidean (tertiary ! i) (tertiary ! j)
                                    else if j < i then euclidean (tertiary ! j) (tertiary ! i)
                                    else 0) [0..<?n]) [0..<?n]"
  let ?m = "map (\<lambda>i. map (\<lambda>j. if \<not> (valid_mask ! i \<and> valid_mask ! j) then - 1
                                 else less_8 ?D ! i ! j) [0..<?n]) [0..<?n]"
  have sq: "squareform (pdist tertiary) = Inr ?D" using assms(2) by (rule squareform_pdist)
  have shape: "length (less_8 ?D) = ?n" "\<forall>row \<in> set (less_8 ?D). length row = ?n"
    by (auto simp: less_8_def)
  have cm: "contact_map_of tertiary valid_mask = Inr ?m"
    using shape assms(1) by (simp add: contact_map_of_def sq mask_invalid_def Let_def)
  have entry: "\<And>i j. i < ?n \<Longrightarrow> j < ?n \<Longrightarrow>
      less_8 ?D ! i ! j = (if euclidean (tertiary ! i) (tertiary ! j) < 8 then 1 else 0)"
    by (auto simp: less_8_def euclidean_commute euclidean_self)
  show ?thesis
    by (rule exI [of _ ?m]) (simp add: cm entry)
qed


text \<open>
  A record without residues: the condensed vector is empty, \<^verbatim>\<open>squareform\<close> returns the
  1-by-1 zero matrix, and the 0-by-0 boolean index does not fit it.
\<close>

lemma contact_map_of_no_residues:
  "contact_map_of [] [] = Inl (IndexError_msg ''boolean index did not match indexed array'')"
  by (simp add: contact_map_of_def squareform_def less_8_def mask_invalid_def)

lemma proteinnet_getitem_contact_map:
  assumes "fst (record_source_getitem (td_dataset ds) index) = Inr item"
    and "item ''primary'' = Some (PyStr primary)"
    and "item ''tertiary'' = Some (PyCoords tertiary)"
    and "item ''valid_mask'' = Some (PyBoolArray valid_mask)"
    and "contact_map_of tertiary valid_mask = Inr m"
  shows "\<exists>token_ids attention_mask.
           fst (ProteinnetDataset_getitem ds index) = Inr (token_ids, attention_mask, m)"
proof -
  obtain src' where g: "record_source_getitem (td_dataset ds) index = (Inr item, src')"
    using assms(1) by (cases "record_source_getitem (td_dataset ds) index") simp
  show ?thesis
    using assms(2-5)
    by (simp add: ProteinnetDataset_getitem_def TAPEDataset_getitem_def g Let_def)
qed


text \<open>
  C10. Under the same conditions the diagonal entry \<open>(i, i)\<close> of the returned contact map is
  1 when residue \<open>i\<close> is valid and \<open>-1\<close> when it is not; it is never 0.
\<close>

theorem contact_map_diagonal:
  assumes "fst (record_source_getitem (td_dataset ds) index) = Inr item"
    and "item ''primary'' = Some (PyStr primary)"
    and "item ''tertiary'' = Some (PyCoords tertiary)"
    and "item ''valid_mask'' = Some (PyBoolArray valid_mask)"
    and "length valid_mask = length tertiary"
    and "i < length tertiary"
  shows "\<exists>token_ids attention_mask m.
           fst (ProteinnetDataset_getitem ds index) = Inr (token_ids, attention_mask, m) \<and>
           m ! i ! i = (if valid_mask ! i then 1 else - 1) \<and> m ! i ! i \<noteq> 0"
proof -
  from assms(6) have ne: "tertiary \<noteq> []" by auto
  from contact_map_of_entries [OF assms(5) ne]
  obtain m where cm: "contact_map_of tertiary valid_mask = Inr m"
    and ent: "\<forall>i<length tertiary. length (m ! i) = length tertiary \<and>
              (\<forall>j<length tertiary.
                 m ! i ! j =
                   (if \<not> (valid_mask ! i \<and> valid_mask ! j) then - 1
                    else if euclidean (tertiary ! i) (tertiary ! j) < 8 then 1 else 0))"
    by blast
  from proteinnet_getitem_contact_map [OF assms(1-4) cm]
  obtain token_ids attention_mask where
    get: "fst (ProteinnetDataset_getitem ds index) = Inr (token_ids, attention_mask, m)"
    by blast
  have "m ! i ! i = (if valid_mask ! i then 1 else - 1)"
    using ent assms(6) by (simp add: euclidean_self)
  then show ?thesis using get by auto
qed

lemma demo_contact_fetch:
  "fst (record_source_getitem (td_dataset demo_tape_dataset) 1) = Inr demo_item"
  "demo_item ''primary'' = Some (PyStr ''MKVL'')"
  "demo_item ''tertiary'' = Some (PyCoords [(0, 0, 0), (1, 0, 0), (10, 0, 0), (2, 0, 0)])"
  "demo_item ''valid_mask'' = Some (PyBoolArray [True, True, True, False])"
  by (simp_all add: demo_tape_dataset_def demo_item_def record_source_getitem_def
        LMDBDataset_getitem_def lmdb_read_store_def demo_env_def pkl_loads_get_def)


theorem contact_map_diagonal_witness:
  "\<exists>token_ids attention_mask m.
     fst (ProteinnetDataset_getitem demo_tape_dataset 1) = Inr (token_ids, attention_mask, m) \<and>
     m ! 2 ! 2 = 1 \<and> m ! 3 ! 3 = - 1"
proof -
  let ?t = "[(0, 0, 0), (1, 0, 0), (10, 0, 0), (2, 0, 0)] :: (real \<times> real \<times> real) list"
  let ?v = "[True, True, True, False]"
  have l: "length ?v = length ?t" by simp
  from contact_map_diagonal [OF demo_contact_fetch l, of 2]
  obtain token_ids attention_mask m where
    get: "fst (ProteinnetDataset_getitem demo_tape_dataset 1) = Inr (token_ids, attention_mask, m)"
    and a: "m ! 2 ! 2 = 1"
    by auto
  from contact_map_diagonal [OF demo_contact_fetch l, of 3] get
  have b: "m ! 3 ! 3 = - 1" by auto
  show ?thesis using get a b by blast
qed

section \<open>The padding primitive\<close>









end
